theory Spec2Isabelle
  imports Main "HOL-Library.AList"
begin

section \<open>Project Chimera: the dashboard script \<open>app.py\<close>\<close>

text \<open>
  \<open>app.py\<close> is a Streamlit script: it imports nine settings from \<open>config\<close>, draws a
  sidebar, and, when the button is pressed, calls four pipeline functions in order.
  The four functions, pandas and the \<open>config\<close> module are not part of the script; they
  are parameters of the model. A run of the script is the list of things it displayed
  and called, together with the way it ended.
\<close>

subsection \<open>Python values and exceptions\<close>

datatype column =
    Parsed "string list"        \<comment> \<open>a column as \<open>read_csv\<close> loaded it, cells as text\<close>
  | Datetime "int option list"  \<comment> \<open>a datetime64 column, \<open>None\<close> is NaT\<close>

type_synonym frame = "(string \<times> column) list"

datatype pyval =
    PNone
  | PBool bool
  | PInt int
  | PFloat int int   \<comment> \<open>mantissa and binary exponent of a finite float\<close>
  | PStr string
  | PFrame frame     \<comment> \<open>a pandas DataFrame\<close>
  | PObj nat         \<comment> \<open>any other object (a matplotlib figure, ...), by identity\<close>

datatype exn_class =
    FileNotFoundError
  | ModuleNotFoundError
  | ImportError
  | KeyError
  | ValueError
  | OtherException string   \<comment> \<open>another subclass of \<open>Exception\<close>, by name\<close>
  | BaseOnly string         \<comment> \<open>a \<open>BaseException\<close> outside \<open>Exception\<close> (KeyboardInterrupt, ...)\<close>

record exn =
  exn_class :: exn_class
  exn_text :: string   \<comment> \<open>what \<open>str(e)\<close> gives\<close>

fun isinstance_FileNotFoundError :: "exn \<Rightarrow> bool" where
  "isinstance_FileNotFoundError e = (exn_class e = FileNotFoundError)"

fun isinstance_ImportError :: "exn \<Rightarrow> bool" where
  "isinstance_ImportError e = (exn_class e = ImportError \<or> exn_class e = ModuleNotFoundError)"

fun isinstance_Exception :: "exn \<Rightarrow> bool" where
  "isinstance_Exception e = (case exn_class e of BaseOnly _ \<Rightarrow> False | _ \<Rightarrow> True)"

definition apostrophe :: string where
  "apostrophe = [CHR 0x27]"

definition quoted :: "string \<Rightarrow> string" where
  "quoted s = apostrophe @ s @ apostrophe"

text \<open>
  The truth test of \<open>if not x\<close>. A DataFrame refuses it with a \<open>ValueError\<close>; an object
  without \<open>__bool__\<close> or \<open>__len__\<close> is true.
\<close>

fun py_truth :: "pyval \<Rightarrow> exn + bool" where
  "py_truth PNone = Inr False"
| "py_truth (PBool b) = Inr b"
| "py_truth (PInt i) = Inr (i \<noteq> 0)"
| "py_truth (PFloat m e) = Inr (m \<noteq> 0)"
| "py_truth (PStr s) = Inr (s \<noteq> [])"
| "py_truth (PFrame f) =
     Inl \<lparr>exn_class = ValueError, exn_text = ''The truth value of a DataFrame is ambiguous.''\<rparr>"
| "py_truth (PObj n) = Inr True"

subsection \<open>The \<open>config\<close> module and its import\<close>

text \<open>
  What \<open>import config\<close> finds: no module, a module whose body raises, or a module with
  its namespace and file name.
\<close>

datatype config_module =
    ModuleAbsent
  | ModuleRaises exn
  | ModuleLoaded "string \<rightharpoonup> pyval" string

record config =
  NEWS_API_KEY :: pyval
  GNEWS_API_KEY :: pyval
  TWITTER_BEARER_TOKEN :: pyval
  SLACK_WEBHOOK_URL :: pyval
  RAW_NEWS_FILE :: pyval
  ANALYZED_NEWS_FILE :: pyval
  QUERY_TOPIC :: pyval
  POSITIVE_THRESHOLD :: pyval
  NEGATIVE_THRESHOLD :: pyval

definition import_name :: "(string \<rightharpoonup> pyval) \<Rightarrow> string \<Rightarrow> string \<Rightarrow> exn + pyval" where
  "import_name ns file name =
     (case ns name of
        None \<Rightarrow> Inl \<lparr>exn_class = ImportError,
                     exn_text = ''cannot import name '' @ quoted name @ '' from '' @ quoted ''config''
                                @ '' ('' @ file @ '')''\<rparr>
      | Some v \<Rightarrow> Inr v)"

text \<open>An exception ends a sequence of steps at the step that raised it.\<close>

definition and_then :: "exn + 'a \<Rightarrow> ('a \<Rightarrow> exn + 'b) \<Rightarrow> exn + 'b" where
  "and_then r f = (case r of Inl e \<Rightarrow> Inl e | Inr v \<Rightarrow> f v)"

text \<open>\<open>from config import (...)\<close>: the names are fetched in the order written.\<close>

definition import_names :: "(string \<rightharpoonup> pyval) \<Rightarrow> string \<Rightarrow> exn + config" where
  "import_names ns file =
     and_then (import_name ns file ''NEWS_API_KEY'') (\<lambda>v1.
     and_then (import_name ns file ''GNEWS_API_KEY'') (\<lambda>v2.
     and_then (import_name ns file ''TWITTER_BEARER_TOKEN'') (\<lambda>v3.
     and_then (import_name ns file ''SLACK_WEBHOOK_URL'') (\<lambda>v4.
     and_then (import_name ns file ''RAW_NEWS_FILE'') (\<lambda>v5.
     and_then (import_name ns file ''ANALYZED_NEWS_FILE'') (\<lambda>v6.
     and_then (import_name ns file ''QUERY_TOPIC'') (\<lambda>v7.
     and_then (import_name ns file ''POSITIVE_THRESHOLD'') (\<lambda>v8.
     and_then (import_name ns file ''NEGATIVE_THRESHOLD'') (\<lambda>v9.
       Inr \<lparr>NEWS_API_KEY = v1, GNEWS_API_KEY = v2, TWITTER_BEARER_TOKEN = v3,
            SLACK_WEBHOOK_URL = v4, RAW_NEWS_FILE = v5, ANALYZED_NEWS_FILE = v6,
            QUERY_TOPIC = v7, POSITIVE_THRESHOLD = v8, NEGATIVE_THRESHOLD = v9\<rparr>)))))))))"

definition import_config :: "config_module \<Rightarrow> exn + config" where
  "import_config m =
     (case m of
        ModuleAbsent \<Rightarrow>
          Inl \<lparr>exn_class = ModuleNotFoundError, exn_text = ''No module named '' @ quoted ''config''\<rparr>
      | ModuleRaises e \<Rightarrow> Inl e
      | ModuleLoaded ns file \<Rightarrow> import_names ns file)"

subsection \<open>The world outside the script\<close>

text \<open>The disk: the text of each file that exists, by path.\<close>

type_synonym disk = "string \<rightharpoonup> string"

text \<open>
  The code the script calls and does not contain. The pipeline functions take their
  arguments in the order of their keyword names in the script, see the disk and may
  change it, and return a value or raise.
\<close>

record env =
  run_collection :: "pyval \<Rightarrow> pyval \<Rightarrow> pyval \<Rightarrow> pyval \<Rightarrow> pyval \<Rightarrow> disk \<Rightarrow> (exn + pyval) \<times> disk"
  run_analysis :: "pyval \<Rightarrow> pyval \<Rightarrow> disk \<Rightarrow> (exn + pyval) \<times> disk"
  run_forecasting :: "pyval \<Rightarrow> pyval \<Rightarrow> pyval \<Rightarrow> pyval \<Rightarrow> pyval \<Rightarrow> disk \<Rightarrow> (exn + pyval) \<times> disk"
  generate_dashboard_figure :: "pyval \<Rightarrow> pyval \<Rightarrow> pyval \<Rightarrow> pyval \<Rightarrow> disk \<Rightarrow> exn + pyval"
  parse_csv :: "string \<Rightarrow> exn + frame"        \<comment> \<open>pandas on the text of a file\<close>
  read_csv_other :: "pyval \<Rightarrow> exn + frame"    \<comment> \<open>pandas on an argument that is not a path string\<close>
  to_datetime :: "column \<Rightarrow> exn + int option list"
  pyplot :: "pyval \<Rightarrow> exn option"             \<comment> \<open>\<open>st.pyplot\<close> may reject what it is given\<close>
  py_str :: "pyval \<Rightarrow> string"                  \<comment> \<open>\<open>str()\<close> of a value that is not a string\<close>

text \<open>What the user did in the sidebar before this run of the script.\<close>

record ui =
  topic_entry :: "string option"   \<comment> \<open>text typed into the topic field, if any\<close>
  horizon_entry :: "nat option"    \<comment> \<open>position picked in the select box, if any\<close>
  button_pressed :: bool

subsection \<open>pandas and Streamlit as the script uses them\<close>

definition format_value :: "env \<Rightarrow> pyval \<Rightarrow> string" where
  "format_value E v = (case v of PStr s \<Rightarrow> s | _ \<Rightarrow> py_str E v)"

definition pd_read_csv :: "env \<Rightarrow> disk \<Rightarrow> pyval \<Rightarrow> exn + frame" where
  "pd_read_csv E d path =
     (case path of
        PStr p \<Rightarrow>
          (case d p of
             None \<Rightarrow> Inl \<lparr>exn_class = FileNotFoundError,
                          exn_text = ''[Errno 2] No such file or directory: '' @ quoted p\<rparr>
           | Some txt \<Rightarrow> parse_csv E txt)
      | _ \<Rightarrow> read_csv_other E path)"

definition getitem :: "frame \<Rightarrow> string \<Rightarrow> exn + column" where
  "getitem df name =
     (case map_of df name of
        None \<Rightarrow> Inl \<lparr>exn_class = KeyError, exn_text = quoted name\<rparr>
      | Some c \<Rightarrow> Inr c)"

definition setitem :: "frame \<Rightarrow> string \<Rightarrow> column \<Rightarrow> frame" where
  "setitem df name c = AList.update name c df"

definition text_input :: "env \<Rightarrow> ui \<Rightarrow> pyval \<Rightarrow> pyval" where
  "text_input E u dflt =
     (case topic_entry u of
        Some s \<Rightarrow> PStr s
      | None \<Rightarrow> (case dflt of PStr s \<Rightarrow> PStr s | PNone \<Rightarrow> PNone | v \<Rightarrow> PStr (py_str E v)))"

text \<open>A select box returns one of its options; a stale position falls back to the default.\<close>

definition selectbox :: "ui \<Rightarrow> int list \<Rightarrow> nat \<Rightarrow> int" where
  "selectbox u options index =
     (case horizon_entry u of
        Some i \<Rightarrow> if i < length options then options ! i else options ! index
      | None \<Rightarrow> options ! index)"

subsection \<open>Runs\<close>

datatype event =
    St_error string
  | St_info string
  | St_success string
  | St_spinner string
  | St_set_page_config string
  | St_title string
  | St_sidebar_header string
  | St_sidebar_text_input string pyval
  | St_sidebar_selectbox string "int list" nat
  | St_sidebar_button string
  | St_pyplot pyval
  | Call_run_collection pyval pyval pyval pyval pyval
  | Call_run_analysis pyval pyval
  | Call_run_forecasting pyval pyval pyval pyval pyval
  | Call_read_csv pyval
  | Call_to_datetime column
  | Call_generate_dashboard_figure pyval pyval pyval pyval

datatype ending =
    Completed      \<comment> \<open>the script ran to its last line\<close>
  | Stopped        \<comment> \<open>\<open>st.stop()\<close>\<close>
  | Uncaught exn   \<comment> \<open>an exception left the script\<close>

type_synonym run = "event list \<times> ending"

definition emoji_collision :: string where
  "emoji_collision = [CHR 0xF0, CHR 0x9F, CHR 0x92, CHR 0xA5]"

definition emoji_chart :: string where
  "emoji_chart = [CHR 0xF0, CHR 0x9F, CHR 0x93, CHR 0x88]"

definition emoji_rocket :: string where
  "emoji_rocket = [CHR 0xF0, CHR 0x9F, CHR 0x9A, CHR 0x80]"

text \<open>The two values the sidebar gives the script.\<close>

definition query :: "env \<Rightarrow> config \<Rightarrow> ui \<Rightarrow> pyval" where
  "query E c u = text_input E u (QUERY_TOPIC c)"

definition forecast_periods :: "ui \<Rightarrow> pyval" where
  "forecast_periods u = PInt (selectbox u [7, 15, 30] 0)"

subsection \<open>Stage 4: the render block\<close>

text \<open>
  The body of the \<open>try\<close>: what it displayed and called, and the exception that left it,
  if any.
\<close>

definition render_body :: "env \<Rightarrow> config \<Rightarrow> pyval \<Rightarrow> pyval \<Rightarrow> pyval \<Rightarrow> disk \<Rightarrow> event list \<times> exn option" where
  "render_body E c topic periods forecast_df d =
     (case pd_read_csv E d (ANALYZED_NEWS_FILE c) of
        Inl e \<Rightarrow> ([Call_read_csv (ANALYZED_NEWS_FILE c)], Some e)
      | Inr analyzed_df \<Rightarrow>
     (case getitem analyzed_df ''publishedAt'' of
        Inl e \<Rightarrow> ([Call_read_csv (ANALYZED_NEWS_FILE c)], Some e)
      | Inr col \<Rightarrow>
     (case to_datetime E col of
        Inl e \<Rightarrow> ([Call_read_csv (ANALYZED_NEWS_FILE c), Call_to_datetime col], Some e)
      | Inr ts \<Rightarrow>
     (let analyzed_df = setitem analyzed_df ''publishedAt'' (Datetime ts);
          calls = [Call_read_csv (ANALYZED_NEWS_FILE c), Call_to_datetime col,
                   Call_generate_dashboard_figure (PFrame analyzed_df) forecast_df topic periods]
      in case generate_dashboard_figure E (PFrame analyzed_df) forecast_df topic periods d of
        Inl e \<Rightarrow> (calls, Some e)
      | Inr fig \<Rightarrow>
     (case pyplot E fig of
        Some e \<Rightarrow> (calls @ [St_pyplot fig], Some e)
      | None \<Rightarrow> (calls @ [St_pyplot fig, St_success ''Dashboard generated successfully!''], None))))))"

text \<open>The \<open>try\<close> with its two handlers, \<open>FileNotFoundError\<close> first.\<close>

definition stage4 :: "env \<Rightarrow> config \<Rightarrow> pyval \<Rightarrow> pyval \<Rightarrow> pyval \<Rightarrow> disk \<Rightarrow> run" where
  "stage4 E c topic periods forecast_df d =
     (case render_body E c topic periods forecast_df d of
        (evs, None) \<Rightarrow> (St_spinner ''Step 4/4: Creating dashboard visualization...'' # evs, Completed)
      | (evs, Some e) \<Rightarrow>
          if isinstance_FileNotFoundError e then
            (St_spinner ''Step 4/4: Creating dashboard visualization...'' # evs
               @ [St_error (''Could not find the analyzed data file: ''
                            @ format_value E (ANALYZED_NEWS_FILE c))],
             Completed)
          else if isinstance_Exception e then
            (St_spinner ''Step 4/4: Creating dashboard visualization...'' # evs
               @ [St_error (''An error occurred while creating the dashboard: '' @ exn_text e)],
             Completed)
          else (St_spinner ''Step 4/4: Creating dashboard visualization...'' # evs, Uncaught e))"

subsection \<open>Stages 3, 2 and 1\<close>

text \<open>Each stage opens its spinner and calls its function.\<close>

definition step1 :: "config \<Rightarrow> pyval \<Rightarrow> event list" where
  "step1 c topic =
     [St_spinner ''Step 1/4: Collecting articles from NewsAPI, GNews, and Twitter...'',
      Call_run_collection topic (RAW_NEWS_FILE c) (NEWS_API_KEY c) (GNEWS_API_KEY c)
        (TWITTER_BEARER_TOKEN c)]"

definition step2 :: "config \<Rightarrow> event list" where
  "step2 c =
     [St_spinner ''Step 2/4: Analyzing sentiment of collected articles...'',
      Call_run_analysis (RAW_NEWS_FILE c) (ANALYZED_NEWS_FILE c)]"

definition step3 :: "config \<Rightarrow> pyval \<Rightarrow> event list" where
  "step3 c periods =
     [St_spinner ''Step 3/4: Generating forecast and checking for alerts...'',
      Call_run_forecasting (ANALYZED_NEWS_FILE c) (POSITIVE_THRESHOLD c) (NEGATIVE_THRESHOLD c)
        (SLACK_WEBHOOK_URL c) periods]"

definition stage3 :: "env \<Rightarrow> config \<Rightarrow> pyval \<Rightarrow> pyval \<Rightarrow> disk \<Rightarrow> run" where
  "stage3 E c topic periods d =
     (case run_forecasting E (ANALYZED_NEWS_FILE c) (POSITIVE_THRESHOLD c)
             (NEGATIVE_THRESHOLD c) (SLACK_WEBHOOK_URL c) periods d of
        (Inl e, d') \<Rightarrow> (step3 c periods, Uncaught e)
      | (Inr forecast_df, d') \<Rightarrow>
          (case stage4 E c topic periods forecast_df d' of
             (evs, end) \<Rightarrow>
               (step3 c periods @ St_success ''Step 3/4: Forecasting complete!'' # evs, end)))"

definition stage2 :: "env \<Rightarrow> config \<Rightarrow> pyval \<Rightarrow> pyval \<Rightarrow> disk \<Rightarrow> run" where
  "stage2 E c topic periods d =
     (case run_analysis E (RAW_NEWS_FILE c) (ANALYZED_NEWS_FILE c) d of
        (Inl e, d') \<Rightarrow> (step2 c, Uncaught e)
      | (Inr analysis_success, d') \<Rightarrow>
          (case py_truth analysis_success of
             Inl e \<Rightarrow> (step2 c, Uncaught e)
           | Inr False \<Rightarrow>
               (step2 c @ [St_error ''Sentiment analysis failed. Please check the logs.''], Stopped)
           | Inr True \<Rightarrow>
               (case stage3 E c topic periods d' of
                  (evs, end) \<Rightarrow>
                    (step2 c @ St_success ''Step 2/4: Sentiment analysis complete!'' # evs, end))))"

definition stage1 :: "env \<Rightarrow> config \<Rightarrow> pyval \<Rightarrow> pyval \<Rightarrow> disk \<Rightarrow> run" where
  "stage1 E c topic periods d =
     (case run_collection E topic (RAW_NEWS_FILE c) (NEWS_API_KEY c) (GNEWS_API_KEY c)
             (TWITTER_BEARER_TOKEN c) d of
        (Inl e, d') \<Rightarrow> (step1 c topic, Uncaught e)
      | (Inr collection_success, d') \<Rightarrow>
          (case py_truth collection_success of
             Inl e \<Rightarrow> (step1 c topic, Uncaught e)
           | Inr False \<Rightarrow>
               (step1 c topic
                  @ [St_error ''Failed to collect any articles. Please check your API keys and the query term.''],
                Stopped)
           | Inr True \<Rightarrow>
               (case stage2 E c topic periods d' of
                  (evs, end) \<Rightarrow>
                    (step1 c topic @ St_success ''Step 1/4: Data collection complete!'' # evs, end))))"

subsection \<open>The script\<close>

text \<open>The page title, the sidebar and its three controls, drawn in every run that starts.\<close>

definition controls :: "config \<Rightarrow> event list" where
  "controls c =
     [St_set_page_config ''wide'',
      St_title (emoji_chart @ '' Project Chimera: Strategic Intelligence Dashboard''),
      St_sidebar_header ''Dashboard Controls'',
      St_sidebar_text_input ''Enter a new topic to analyze:'' (QUERY_TOPIC c),
      St_sidebar_selectbox ''Select Forecast Period (days):'' [7, 15, 30] 0,
      St_sidebar_button (emoji_rocket @ '' Generate New Report'')]"

definition dashboard :: "env \<Rightarrow> config \<Rightarrow> ui \<Rightarrow> disk \<Rightarrow> run" where
  "dashboard E c u d =
     (if button_pressed u then
           (case stage1 E c (query E c u) (forecast_periods u) d of
              (evs, end) \<Rightarrow> (controls c @ evs, end))
         else
           (controls c
              @ [St_info (''Enter a topic in the sidebar and click '' @ quoted ''Generate New Report''
                          @ '' to begin.'')],
            Completed))"

definition app :: "env \<Rightarrow> config_module \<Rightarrow> ui \<Rightarrow> disk \<Rightarrow> run" where
  "app E m u d =
     (case import_config m of
        Inl e \<Rightarrow>
          if isinstance_ImportError e then
            ([St_error (emoji_collision @ '' **Configuration Error:** Could not load settings from `config.py`. Please check the file.''),
              St_error (''Details: '' @ exn_text e),
              St_info ''Ensure your `config.py` and `.env` files are correctly set up.''],
             Stopped)
          else ([], Uncaught e)
      | Inr c \<Rightarrow> dashboard E c u d)"

subsection \<open>Reading a run\<close>

fun is_collector_call :: "event \<Rightarrow> bool" where
  "is_collector_call (Call_run_collection q out k1 k2 k3) = True"
| "is_collector_call _ = False"

fun is_analyzer_call :: "event \<Rightarrow> bool" where
  "is_analyzer_call (Call_run_analysis raw out) = True"
| "is_analyzer_call _ = False"

fun is_forecaster_call :: "event \<Rightarrow> bool" where
  "is_forecaster_call (Call_run_forecasting inp pos neg hook periods) = True"
| "is_forecaster_call _ = False"

fun is_presenter_call :: "event \<Rightarrow> bool" where
  "is_presenter_call (Call_generate_dashboard_figure df fc q periods) = True"
| "is_presenter_call _ = False"

fun is_read_csv_call :: "event \<Rightarrow> bool" where
  "is_read_csv_call (Call_read_csv p) = True"
| "is_read_csv_call _ = False"

fun is_trigger_button :: "event \<Rightarrow> bool" where
  "is_trigger_button (St_sidebar_button label) = True"
| "is_trigger_button _ = False"

fun is_error :: "event \<Rightarrow> bool" where
  "is_error (St_error t) = True"
| "is_error _ = False"

fun is_chart :: "event \<Rightarrow> bool" where
  "is_chart (St_pyplot f) = True"
| "is_chart _ = False"

text \<open>Everything the page shows below its title: messages, spinners and charts.\<close>

fun is_output :: "event \<Rightarrow> bool" where
  "is_output (St_error t) = True"
| "is_output (St_info t) = True"
| "is_output (St_success t) = True"
| "is_output (St_spinner t) = True"
| "is_output (St_pyplot f) = True"
| "is_output _ = False"

text \<open>What a run has displayed and called when stage 3, and then stage 4, begins.\<close>

definition upto_stage3 :: "env \<Rightarrow> config \<Rightarrow> ui \<Rightarrow> event list" where
  "upto_stage3 E c u =
     controls c @ step1 c (query E c u) @ St_success ''Step 1/4: Data collection complete!''
       # step2 c @ [St_success ''Step 2/4: Sentiment analysis complete!'']"

definition upto_stage4 :: "env \<Rightarrow> config \<Rightarrow> ui \<Rightarrow> event list" where
  "upto_stage4 E c u =
     upto_stage3 E c u @ step3 c (forecast_periods u) @ [St_success ''Step 3/4: Forecasting complete!'']"

text \<open>
  The two \<open>except\<close> clauses of stage 4, applied to what the run has shown so far and the
  exception that left the \<open>try\<close> body.
\<close>

definition except_clauses :: "env \<Rightarrow> config \<Rightarrow> event list \<Rightarrow> exn \<Rightarrow> run" where
  "except_clauses E c shown e =
     (if isinstance_FileNotFoundError e then
        (shown @ [St_error (''Could not find the analyzed data file: ''
                            @ format_value E (ANALYZED_NEWS_FILE c))],
         Completed)
      else if isinstance_Exception e then
        (shown @ [St_error (''An error occurred while creating the dashboard: '' @ exn_text e)],
         Completed)
      else (shown, Uncaught e))"

text \<open>The nine names the script imports.\<close>

definition config_names :: "string list" where
  "config_names =
     [''NEWS_API_KEY'', ''GNEWS_API_KEY'', ''TWITTER_BEARER_TOKEN'', ''SLACK_WEBHOOK_URL'',
      ''RAW_NEWS_FILE'', ''ANALYZED_NEWS_FILE'', ''QUERY_TOPIC'', ''POSITIVE_THRESHOLD'',
      ''NEGATIVE_THRESHOLD'']"

subsection \<open>A sample installation\<close>

definition sample_settings :: "(string \<times> pyval) list" where
  "sample_settings =
     [(''NEWS_API_KEY'', PStr ''news-key''),
      (''GNEWS_API_KEY'', PStr ''gnews-key''),
      (''TWITTER_BEARER_TOKEN'', PStr ''bearer''),
      (''SLACK_WEBHOOK_URL'', PStr ''https://hooks.example/T0''),
      (''RAW_NEWS_FILE'', PStr ''raw.csv''),
      (''ANALYZED_NEWS_FILE'', PStr ''analyzed.csv''),
      (''QUERY_TOPIC'', PStr ''artificial intelligence''),
      (''POSITIVE_THRESHOLD'', PFloat 1 (- 2)),
      (''NEGATIVE_THRESHOLD'', PFloat (- 1) (- 2))]"

definition sample_module :: config_module where
  "sample_module = ModuleLoaded (map_of sample_settings) ''/app/config.py''"

definition sample_config :: config where
  "sample_config =
     \<lparr>NEWS_API_KEY = PStr ''news-key'', GNEWS_API_KEY = PStr ''gnews-key'',
      TWITTER_BEARER_TOKEN = PStr ''bearer'', SLACK_WEBHOOK_URL = PStr ''https://hooks.example/T0'',
      RAW_NEWS_FILE = PStr ''raw.csv'', ANALYZED_NEWS_FILE = PStr ''analyzed.csv'',
      QUERY_TOPIC = PStr ''artificial intelligence'',
      POSITIVE_THRESHOLD = PFloat 1 (- 2), NEGATIVE_THRESHOLD = PFloat (- 1) (- 2)\<rparr>"

text \<open>A module that defines all nine names, one of them with a value of the wrong kind.\<close>

definition malformed_module :: config_module where
  "malformed_module =
     ModuleLoaded (map_of ((''POSITIVE_THRESHOLD'', PStr ''high'') # sample_settings)) ''/app/config.py''"

definition malformed_config :: config where
  "malformed_config = sample_config\<lparr>POSITIVE_THRESHOLD := PStr ''high''\<rparr>"

text \<open>A module that leaves the last name out.\<close>

definition incomplete_module :: config_module where
  "incomplete_module = ModuleLoaded (map_of (butlast sample_settings)) ''/app/config.py''"

definition sample_frame :: frame where
  "sample_frame =
     [(''publishedAt'', Parsed [''2024-05-01T10:00:00Z'']),
      (''title'', Parsed [''Chips'']),
      (''sentiment'', Parsed [''0.4''])]"

text \<open>
  Collaborators that all succeed: the Collector and the Analyzer write their files, the
  Forecaster returns a table, the Presenter a figure.
\<close>

definition sample_env :: env where
  "sample_env =
     \<lparr>run_collection = (\<lambda>q out k1 k2 k3 d.
        (Inr (PBool True), (case out of PStr p \<Rightarrow> d(p \<mapsto> ''raw'') | _ \<Rightarrow> d))),
      run_analysis = (\<lambda>raw out d.
        (Inr (PBool True), (case out of PStr p \<Rightarrow> d(p \<mapsto> ''enriched'') | _ \<Rightarrow> d))),
      run_forecasting = (\<lambda>inp pos neg hook periods d. (Inr (PObj 1), d)),
      generate_dashboard_figure = (\<lambda>df fc q periods d. Inr (PObj 2)),
      parse_csv = (\<lambda>txt.
        if txt = ''enriched'' then Inr sample_frame
        else if txt = ''untimed'' then Inr (tl sample_frame)
        else Inl \<lparr>exn_class = OtherException ''ParserError'', exn_text = ''Error tokenizing data''\<rparr>),
      read_csv_other = (\<lambda>v.
        Inl \<lparr>exn_class = ValueError, exn_text = ''Invalid file path or buffer object type''\<rparr>),
      to_datetime = (\<lambda>col. case col of Parsed cells \<Rightarrow> Inr (map (\<lambda>cell. Some 0) cells)
                                    | Datetime ts \<Rightarrow> Inr ts),
      pyplot = (\<lambda>fig. None),
      py_str = (\<lambda>v. ''?'')\<rparr>"

definition not_found :: exn where
  "not_found = \<lparr>exn_class = FileNotFoundError, exn_text = ''[Errno 2] No such file or directory''\<rparr>"

text \<open>Variations: a collaborator that reports failure, raises, or removes a file.\<close>

definition collector_fails :: env where
  "collector_fails = sample_env\<lparr>run_collection := (\<lambda>q out k1 k2 k3 d. (Inr (PBool False), d))\<rparr>"

definition analyzer_fails :: env where
  "analyzer_fails = sample_env\<lparr>run_analysis := (\<lambda>raw out d. (Inr PNone, d))\<rparr>"

definition forecaster_returns_none :: env where
  "forecaster_returns_none =
     sample_env\<lparr>run_forecasting := (\<lambda>inp pos neg hook periods d. (Inr PNone, d))\<rparr>"

definition forecaster_raises :: env where
  "forecaster_raises =
     sample_env\<lparr>run_forecasting := (\<lambda>inp pos neg hook periods d.
       (Inl \<lparr>exn_class = ValueError, exn_text = ''not enough data''\<rparr>, d))\<rparr>"

definition enriched_file_removed :: env where
  "enriched_file_removed =
     sample_env\<lparr>run_forecasting := (\<lambda>inp pos neg hook periods d.
       (Inr (PObj 1), (case inp of PStr p \<Rightarrow> d(p := None) | _ \<Rightarrow> d)))\<rparr>"

definition analyzer_omits_timestamps :: env where
  "analyzer_omits_timestamps =
     sample_env\<lparr>run_analysis := (\<lambda>raw out d.
       (Inr (PBool True), (case out of PStr p \<Rightarrow> d(p \<mapsto> ''untimed'') | _ \<Rightarrow> d)))\<rparr>"

definition presenter_misses_font :: env where
  "presenter_misses_font =
     sample_env\<lparr>generate_dashboard_figure := (\<lambda>df fc q periods d. Inl not_found)\<rparr>"

definition pressed :: ui where
  "pressed = \<lparr>topic_entry = Some ''xyz'', horizon_entry = Some 2, button_pressed = True\<rparr>"

definition idle :: ui where
  "idle = \<lparr>topic_entry = None, horizon_entry = None, button_pressed = False\<rparr>"

definition after_collection :: disk where
  "after_collection = Map.empty(''raw.csv'' \<mapsto> ''raw'')"

definition after_analysis :: disk where
  "after_analysis = after_collection(''analyzed.csv'' \<mapsto> ''enriched'')"

section \<open>Properties of the script\<close>

subsection \<open>What each part of a run can contain\<close>

lemma controls_quiet:
  "filter is_collector_call (controls c) = []"
  "filter is_analyzer_call (controls c) = []"
  "filter is_forecaster_call (controls c) = []"
  "filter is_presenter_call (controls c) = []"
  "filter is_read_csv_call (controls c) = []"
  "filter is_error (controls c) = []"
  "filter is_chart (controls c) = []"
  "filter is_output (controls c) = []"
  by (simp_all add: controls_def)

lemma step1_quiet:
  "filter is_analyzer_call (step1 c q) = []"
  "filter is_forecaster_call (step1 c q) = []"
  "filter is_presenter_call (step1 c q) = []"
  "filter is_read_csv_call (step1 c q) = []"
  "filter is_error (step1 c q) = []"
  "filter is_chart (step1 c q) = []"
  by (simp_all add: step1_def)

lemma step2_quiet:
  "filter is_forecaster_call (step2 c) = []"
  "filter is_presenter_call (step2 c) = []"
  "filter is_read_csv_call (step2 c) = []"
  "filter is_error (step2 c) = []"
  "filter is_chart (step2 c) = []"
  by (simp_all add: step2_def)

lemma step3_quiet:
  "filter is_presenter_call (step3 c p) = []"
  "filter is_read_csv_call (step3 c p) = []"
  "filter is_error (step3 c p) = []"
  "filter is_chart (step3 c p) = []"
  by (simp_all add: step3_def)

lemma upto_stage3_quiet:
  "filter is_forecaster_call (upto_stage3 E c u) = []"
  "filter is_presenter_call (upto_stage3 E c u) = []"
  "filter is_read_csv_call (upto_stage3 E c u) = []"
  "filter is_error (upto_stage3 E c u) = []"
  "filter is_chart (upto_stage3 E c u) = []"
  by (simp_all add: upto_stage3_def controls_quiet step1_quiet step2_quiet)

lemma upto_stage4_quiet:
  "filter is_presenter_call (upto_stage4 E c u) = []"
  "filter is_read_csv_call (upto_stage4 E c u) = []"
  "filter is_error (upto_stage4 E c u) = []"
  "filter is_chart (upto_stage4 E c u) = []"
  by (simp_all add: upto_stage4_def upto_stage3_quiet step3_quiet)

lemma render_body_events:
  assumes "ev \<in> set (fst (render_body E c q p fc d))"
  shows "\<not> is_collector_call ev \<and> \<not> is_analyzer_call ev \<and> \<not> is_forecaster_call ev
         \<and> \<not> is_error ev"
  using assms by (auto simp: render_body_def Let_def split: sum.splits option.splits)

lemma stage4_events:
  assumes "ev \<in> set (fst (stage4 E c q p fc d))"
  shows "\<not> is_collector_call ev \<and> \<not> is_analyzer_call ev \<and> \<not> is_forecaster_call ev"
proof -
  obtain evs r where rb: "render_body E c q p fc d = (evs, r)"
    by (cases "render_body E c q p fc d")
  have inner: "\<And>x. x \<in> set evs \<Longrightarrow>
      \<not> is_collector_call x \<and> \<not> is_analyzer_call x \<and> \<not> is_forecaster_call x"
    using render_body_events [of _ E c q p fc d] rb by simp
  from assms rb show ?thesis
    by (auto simp: stage4_def dest: inner split: option.splits if_splits)
qed

lemma stage4_no_forecaster: "filter is_forecaster_call (fst (stage4 E c q p fc d)) = []"
  using stage4_events [of _ E c q p fc d] by (simp add: filter_empty_conv)

subsection \<open>How a run reaches each stage\<close>

lemma app_pressed:
  assumes "import_config m = Inr c" and "button_pressed u"
  shows "app E m u d = (controls c @ fst (stage1 E c (query E c u) (forecast_periods u) d),
                        snd (stage1 E c (query E c u) (forecast_periods u) d))"
  using assms by (simp add: app_def dashboard_def split: prod.splits)

lemma stage1_passed:
  assumes "run_collection E q (RAW_NEWS_FILE c) (NEWS_API_KEY c) (GNEWS_API_KEY c)
             (TWITTER_BEARER_TOKEN c) d = (Inr v1, d1)"
    and "py_truth v1 = Inr True"
  shows "stage1 E c q p d =
           (step1 c q @ St_success ''Step 1/4: Data collection complete!'' # fst (stage2 E c q p d1),
            snd (stage2 E c q p d1))"
  using assms by (simp add: stage1_def split: prod.splits)

lemma stage2_passed:
  assumes "run_analysis E (RAW_NEWS_FILE c) (ANALYZED_NEWS_FILE c) d1 = (Inr v2, d2)"
    and "py_truth v2 = Inr True"
  shows "stage2 E c q p d1 =
           (step2 c @ St_success ''Step 2/4: Sentiment analysis complete!'' # fst (stage3 E c q p d2),
            snd (stage3 E c q p d2))"
  using assms by (simp add: stage2_def split: prod.splits)

lemma stage3_passed:
  assumes "run_forecasting E (ANALYZED_NEWS_FILE c) (POSITIVE_THRESHOLD c) (NEGATIVE_THRESHOLD c)
             (SLACK_WEBHOOK_URL c) p d2 = (Inr fc, d3)"
  shows "stage3 E c q p d2 =
           (step3 c p @ St_success ''Step 3/4: Forecasting complete!'' # fst (stage4 E c q p fc d3),
            snd (stage4 E c q p fc d3))"
  using assms by (simp add: stage3_def split: prod.splits)

lemma reach_stage3:
  assumes "import_config m = Inr c" and "button_pressed u"
    and "run_collection E (query E c u) (RAW_NEWS_FILE c) (NEWS_API_KEY c) (GNEWS_API_KEY c)
           (TWITTER_BEARER_TOKEN c) d = (Inr v1, d1)"
    and "py_truth v1 = Inr True"
    and "run_analysis E (RAW_NEWS_FILE c) (ANALYZED_NEWS_FILE c) d1 = (Inr v2, d2)"
    and "py_truth v2 = Inr True"
  shows "app E m u d =
           (upto_stage3 E c u @ fst (stage3 E c (query E c u) (forecast_periods u) d2),
            snd (stage3 E c (query E c u) (forecast_periods u) d2))"
  by (simp add: app_pressed [OF assms(1,2)] stage1_passed [OF assms(3,4)]
      stage2_passed [OF assms(5,6)] upto_stage3_def)

lemma reach_stage4:
  assumes "import_config m = Inr c" and "button_pressed u"
    and "run_collection E (query E c u) (RAW_NEWS_FILE c) (NEWS_API_KEY c) (GNEWS_API_KEY c)
           (TWITTER_BEARER_TOKEN c) d = (Inr v1, d1)"
    and "py_truth v1 = Inr True"
    and "run_analysis E (RAW_NEWS_FILE c) (ANALYZED_NEWS_FILE c) d1 = (Inr v2, d2)"
    and "py_truth v2 = Inr True"
    and "run_forecasting E (ANALYZED_NEWS_FILE c) (POSITIVE_THRESHOLD c) (NEGATIVE_THRESHOLD c)
           (SLACK_WEBHOOK_URL c) (forecast_periods u) d2 = (Inr fc, d3)"
  shows "app E m u d =
           (upto_stage4 E c u @ fst (stage4 E c (query E c u) (forecast_periods u) fc d3),
            snd (stage4 E c (query E c u) (forecast_periods u) fc d3))"
  by (simp add: reach_stage3 [OF assms(1-6)] stage3_passed [OF assms(7)] upto_stage4_def)

subsection \<open>The sample installation, evaluated\<close>

lemma import_sample: "import_config sample_module = Inr sample_config"
  by (simp add: import_config_def sample_module_def import_names_def import_name_def
      and_then_def sample_settings_def sample_config_def)

lemma sample_paths:
  "RAW_NEWS_FILE sample_config = PStr ''raw.csv''"
  "ANALYZED_NEWS_FILE sample_config = PStr ''analyzed.csv''"
  by (simp_all add: sample_config_def)

lemma pressed_ui: "button_pressed pressed" "forecast_periods pressed = PInt 30"
  by (simp_all add: pressed_def forecast_periods_def selectbox_def)

lemma sample_collection:
  "run_collection sample_env q (RAW_NEWS_FILE sample_config) k1 k2 k3 Map.empty
     = (Inr (PBool True), after_collection)"
  by (simp add: sample_env_def sample_paths after_collection_def)

lemma sample_analysis:
  "run_analysis sample_env (RAW_NEWS_FILE sample_config) (ANALYZED_NEWS_FILE sample_config)
     after_collection = (Inr (PBool True), after_analysis)"
  by (simp add: sample_env_def sample_paths after_analysis_def)

lemma sample_forecasting:
  "run_forecasting sample_env inp pos neg hook p d = (Inr (PObj 1), d)"
  by (simp add: sample_env_def)

subsection \<open>Stage 1 gates the rest\<close>

text \<open>
  C1. When the button is pressed and \<open>run_collection\<close> returns a value that is false in
  Python, the run is the controls, the stage 1 spinner and call, and the error about API
  keys and the query term; it ends in \<open>st.stop()\<close>; and it holds no call of the Analyzer,
  the Forecaster or the Presenter.
\<close>

theorem collector_failure_halts_run:
  assumes "import_config m = Inr c" and "button_pressed u"
    and "run_collection E (query E c u) (RAW_NEWS_FILE c) (NEWS_API_KEY c) (GNEWS_API_KEY c)
           (TWITTER_BEARER_TOKEN c) d = (Inr v, d1)"
    and "py_truth v = Inr False"
  shows "app E m u d =
           (controls c @ step1 c (query E c u)
              @ [St_error ''Failed to collect any articles. Please check your API keys and the query term.''],
            Stopped)
         \<and> filter is_analyzer_call (fst (app E m u d)) = []
         \<and> filter is_forecaster_call (fst (app E m u d)) = []
         \<and> filter is_presenter_call (fst (app E m u d)) = []"
proof -
  have run: "app E m u d =
           (controls c @ step1 c (query E c u)
              @ [St_error ''Failed to collect any articles. Please check your API keys and the query term.''],
            Stopped)"
    using assms(3,4) by (simp add: app_pressed [OF assms(1,2)] stage1_def)
  show ?thesis
    by (simp add: run controls_quiet step1_quiet)
qed

theorem collector_failure_halts_run_witness:
  "import_config sample_module = Inr sample_config \<and> button_pressed pressed
   \<and> run_collection collector_fails (query collector_fails sample_config pressed)
        (RAW_NEWS_FILE sample_config) (NEWS_API_KEY sample_config) (GNEWS_API_KEY sample_config)
        (TWITTER_BEARER_TOKEN sample_config) Map.empty = (Inr (PBool False), Map.empty)
   \<and> py_truth (PBool False) = Inr False
   \<and> app collector_fails sample_module pressed Map.empty =
       (controls sample_config @ step1 sample_config (query collector_fails sample_config pressed)
          @ [St_error ''Failed to collect any articles. Please check your API keys and the query term.''],
        Stopped)
   \<and> filter is_analyzer_call (fst (app collector_fails sample_module pressed Map.empty)) = []
   \<and> filter is_forecaster_call (fst (app collector_fails sample_module pressed Map.empty)) = []
   \<and> filter is_presenter_call (fst (app collector_fails sample_module pressed Map.empty)) = []"
proof -
  have h3: "run_collection collector_fails (query collector_fails sample_config pressed)
        (RAW_NEWS_FILE sample_config) (NEWS_API_KEY sample_config) (GNEWS_API_KEY sample_config)
        (TWITTER_BEARER_TOKEN sample_config) Map.empty = (Inr (PBool False), Map.empty)"
    by (simp add: collector_fails_def)
  have h4: "py_truth (PBool False) = Inr False" by simp
  from collector_failure_halts_run [OF import_sample pressed_ui(1) h3 h4] import_sample pressed_ui(1) h3 h4
  show ?thesis by blast
qed


subsection \<open>Stage 2 gates the rest\<close>

text \<open>
  C2. When stage 1 passed and \<open>run_analysis\<close> returns a value that is false in Python,
  the run shows the sentiment-analysis error after the stage 2 call and ends in
  \<open>st.stop()\<close>; it holds no call of the Forecaster or the Presenter.
\<close>

theorem analyzer_failure_halts_run:
  assumes "import_config m = Inr c" and "button_pressed u"
    and "run_collection E (query E c u) (RAW_NEWS_FILE c) (NEWS_API_KEY c) (GNEWS_API_KEY c)
           (TWITTER_BEARER_TOKEN c) d = (Inr v1, d1)"
    and "py_truth v1 = Inr True"
    and "run_analysis E (RAW_NEWS_FILE c) (ANALYZED_NEWS_FILE c) d1 = (Inr v2, d2)"
    and "py_truth v2 = Inr False"
  shows "app E m u d =
           (controls c @ step1 c (query E c u) @ St_success ''Step 1/4: Data collection complete!''
              # step2 c @ [St_error ''Sentiment analysis failed. Please check the logs.''],
            Stopped)
         \<and> filter is_forecaster_call (fst (app E m u d)) = []
         \<and> filter is_presenter_call (fst (app E m u d)) = []"
proof -
  have "stage2 E c (query E c u) (forecast_periods u) d1 =
          (step2 c @ [St_error ''Sentiment analysis failed. Please check the logs.''], Stopped)"
    using assms(5,6) by (simp add: stage2_def)
  then have run: "app E m u d =
           (controls c @ step1 c (query E c u) @ St_success ''Step 1/4: Data collection complete!''
              # step2 c @ [St_error ''Sentiment analysis failed. Please check the logs.''],
            Stopped)"
    by (simp add: app_pressed [OF assms(1,2)] stage1_passed [OF assms(3,4)])
  show ?thesis
    by (simp add: run controls_quiet step1_quiet step2_quiet)
qed

theorem analyzer_failure_halts_run_witness:
  "import_config sample_module = Inr sample_config \<and> button_pressed pressed
   \<and> run_collection analyzer_fails (query analyzer_fails sample_config pressed)
        (RAW_NEWS_FILE sample_config) (NEWS_API_KEY sample_config) (GNEWS_API_KEY sample_config)
        (TWITTER_BEARER_TOKEN sample_config) Map.empty = (Inr (PBool True), after_collection)
   \<and> py_truth (PBool True) = Inr True
   \<and> run_analysis analyzer_fails (RAW_NEWS_FILE sample_config) (ANALYZED_NEWS_FILE sample_config)
        after_collection = (Inr PNone, after_collection)
   \<and> py_truth PNone = Inr False
   \<and> app analyzer_fails sample_module pressed Map.empty =
       (controls sample_config @ step1 sample_config (query analyzer_fails sample_config pressed)
          @ St_success ''Step 1/4: Data collection complete!''
          # step2 sample_config @ [St_error ''Sentiment analysis failed. Please check the logs.''],
        Stopped)
   \<and> filter is_forecaster_call (fst (app analyzer_fails sample_module pressed Map.empty)) = []
   \<and> filter is_presenter_call (fst (app analyzer_fails sample_module pressed Map.empty)) = []"
proof -
  have h3: "run_collection analyzer_fails (query analyzer_fails sample_config pressed)
        (RAW_NEWS_FILE sample_config) (NEWS_API_KEY sample_config) (GNEWS_API_KEY sample_config)
        (TWITTER_BEARER_TOKEN sample_config) Map.empty = (Inr (PBool True), after_collection)"
    by (simp add: analyzer_fails_def sample_env_def sample_paths after_collection_def)
  have h4: "py_truth (PBool True) = Inr True" by simp
  have h5: "run_analysis analyzer_fails (RAW_NEWS_FILE sample_config)
        (ANALYZED_NEWS_FILE sample_config) after_collection = (Inr PNone, after_collection)"
    by (simp add: analyzer_fails_def)
  have h6: "py_truth PNone = Inr False" by simp
  from analyzer_failure_halts_run [OF import_sample pressed_ui(1) h3 h4 h5 h6]
    import_sample pressed_ui(1) h3 h4 h5 h6
  show ?thesis by blast
qed

subsection \<open>Stage 3 runs once and is not checked\<close>

lemma horizon_choices: "forecast_periods u \<in> {PInt 7, PInt 15, PInt 30}"
proof -
  have "i < 3 \<Longrightarrow> [7, 15, 30 :: int] ! i \<in> {7, 15, 30}" for i :: nat
    by (cases i rule: nat.exhaust; simp add: nth_Cons split: nat.splits)
  then show ?thesis
    by (auto simp: forecast_periods_def selectbox_def split: option.splits)
qed

lemma horizon_follows_selection:
  "forecast_periods u =
     PInt (case horizon_entry u of
             None \<Rightarrow> 7
           | Some i \<Rightarrow> if i = 0 then 7 else if i = 1 then 15 else if i = 2 then 30 else 7)"
proof (cases "horizon_entry u")
  case None
  then show ?thesis by (simp add: forecast_periods_def selectbox_def)
next
  case (Some i)
  have "i = 0 \<or> i = 1 \<or> i = 2 \<or> 3 \<le> i" by arith
  with Some show ?thesis
    by (auto simp: forecast_periods_def selectbox_def)
qed

lemma stage3_forecaster_calls:
  "filter is_forecaster_call (fst (stage3 E c q p d)) =
     [Call_run_forecasting (ANALYZED_NEWS_FILE c) (POSITIVE_THRESHOLD c) (NEGATIVE_THRESHOLD c)
        (SLACK_WEBHOOK_URL c) p]"
proof (cases "run_forecasting E (ANALYZED_NEWS_FILE c) (POSITIVE_THRESHOLD c) (NEGATIVE_THRESHOLD c)
                (SLACK_WEBHOOK_URL c) p d")
  case (Pair r d3)
  show ?thesis
  proof (cases r)
    case (Inl e)
    with Pair show ?thesis by (simp add: stage3_def step3_def)
  next
    case (Inr fc)
    with Pair show ?thesis
      by (simp add: stage3_passed stage4_no_forecaster step3_def)
  qed
qed

lemma stage3_run:
  "stage3 E c q p d2 =
     (case run_forecasting E (ANALYZED_NEWS_FILE c) (POSITIVE_THRESHOLD c) (NEGATIVE_THRESHOLD c)
             (SLACK_WEBHOOK_URL c) p d2 of
        (Inr forecast_df, d3) \<Rightarrow>
          (step3 c p @ St_success ''Step 3/4: Forecasting complete!''
             # fst (stage4 E c q p forecast_df d3),
           snd (stage4 E c q p forecast_df d3))
      | (Inl e, d3) \<Rightarrow> (step3 c p, Uncaught e))"
  by (simp add: stage3_def split: prod.splits sum.splits)

text \<open>
  C3. When stages 1 and 2 both returned a value that is true in Python, the script
  applies \<open>run_forecasting\<close> once, to the enriched file path, the configured positive and
  negative thresholds, the configured webhook URL and the horizon of the select box, on
  the disk stage 2 left: the rest of the run is what that one application gives (its
  value and disk go to stage 4, its exception ends the run), and the run records exactly
  one call, with those arguments. The horizon is the option at the position the user
  picked, 7, 15 or 30, and 7 when nothing valid is picked.
\<close>

theorem forecaster_called_once:
  assumes "import_config m = Inr c" and "button_pressed u"
    and "run_collection E (query E c u) (RAW_NEWS_FILE c) (NEWS_API_KEY c) (GNEWS_API_KEY c)
           (TWITTER_BEARER_TOKEN c) d = (Inr v1, d1)"
    and "py_truth v1 = Inr True"
    and "run_analysis E (RAW_NEWS_FILE c) (ANALYZED_NEWS_FILE c) d1 = (Inr v2, d2)"
    and "py_truth v2 = Inr True"
  shows "app E m u d =
           (case run_forecasting E (ANALYZED_NEWS_FILE c) (POSITIVE_THRESHOLD c)
                   (NEGATIVE_THRESHOLD c) (SLACK_WEBHOOK_URL c) (forecast_periods u) d2 of
              (Inr forecast_df, d3) \<Rightarrow>
                (upto_stage3 E c u @ step3 c (forecast_periods u)
                   @ St_success ''Step 3/4: Forecasting complete!''
                   # fst (stage4 E c (query E c u) (forecast_periods u) forecast_df d3),
                 snd (stage4 E c (query E c u) (forecast_periods u) forecast_df d3))
            | (Inl e, d3) \<Rightarrow>
                (upto_stage3 E c u @ step3 c (forecast_periods u), Uncaught e))
         \<and> filter is_forecaster_call (fst (app E m u d)) =
             [Call_run_forecasting (ANALYZED_NEWS_FILE c) (POSITIVE_THRESHOLD c)
                (NEGATIVE_THRESHOLD c) (SLACK_WEBHOOK_URL c) (forecast_periods u)]
         \<and> forecast_periods u =
             PInt (case horizon_entry u of
                     None \<Rightarrow> 7
                   | Some i \<Rightarrow> if i = 0 then 7 else if i = 1 then 15 else if i = 2 then 30 else 7)
         \<and> forecast_periods u \<in> {PInt 7, PInt 15, PInt 30}"
proof -
  have run: "app E m u d =
           (case run_forecasting E (ANALYZED_NEWS_FILE c) (POSITIVE_THRESHOLD c)
                   (NEGATIVE_THRESHOLD c) (SLACK_WEBHOOK_URL c) (forecast_periods u) d2 of
              (Inr forecast_df, d3) \<Rightarrow>
                (upto_stage3 E c u @ step3 c (forecast_periods u)
                   @ St_success ''Step 3/4: Forecasting complete!''
                   # fst (stage4 E c (query E c u) (forecast_periods u) forecast_df d3),
                 snd (stage4 E c (query E c u) (forecast_periods u) forecast_df d3))
            | (Inl e, d3) \<Rightarrow>
                (upto_stage3 E c u @ step3 c (forecast_periods u), Uncaught e))"
    by (simp add: reach_stage3 [OF assms] stage3_run split: prod.splits sum.splits)
  have calls: "filter is_forecaster_call (fst (app E m u d)) =
             [Call_run_forecasting (ANALYZED_NEWS_FILE c) (POSITIVE_THRESHOLD c)
                (NEGATIVE_THRESHOLD c) (SLACK_WEBHOOK_URL c) (forecast_periods u)]"
    by (simp only: reach_stage3 [OF assms] fst_conv filter_append upto_stage3_quiet
        stage3_forecaster_calls append_Nil)
  from run calls horizon_follows_selection [of u] horizon_choices [of u]
  show ?thesis by blast
qed

theorem forecaster_called_once_witness:
  "import_config sample_module = Inr sample_config \<and> button_pressed pressed
   \<and> run_collection sample_env (query sample_env sample_config pressed)
        (RAW_NEWS_FILE sample_config) (NEWS_API_KEY sample_config) (GNEWS_API_KEY sample_config)
        (TWITTER_BEARER_TOKEN sample_config) Map.empty = (Inr (PBool True), after_collection)
   \<and> py_truth (PBool True) = Inr True
   \<and> run_analysis sample_env (RAW_NEWS_FILE sample_config) (ANALYZED_NEWS_FILE sample_config)
        after_collection = (Inr (PBool True), after_analysis)
   \<and> horizon_entry pressed = Some 2
   \<and> forecast_periods pressed = PInt 30
   \<and> run_forecasting sample_env (PStr ''analyzed.csv'') (PFloat 1 (- 2)) (PFloat (- 1) (- 2))
        (PStr ''https://hooks.example/T0'') (PInt 30) after_analysis = (Inr (PObj 1), after_analysis)
   \<and> app sample_env sample_module pressed Map.empty =
       (upto_stage3 sample_env sample_config pressed @ step3 sample_config (PInt 30)
          @ St_success ''Step 3/4: Forecasting complete!''
          # fst (stage4 sample_env sample_config (query sample_env sample_config pressed)
                 (PInt 30) (PObj 1) after_analysis),
        snd (stage4 sample_env sample_config (query sample_env sample_config pressed)
               (PInt 30) (PObj 1) after_analysis))
   \<and> filter is_forecaster_call (fst (app sample_env sample_module pressed Map.empty)) =
        [Call_run_forecasting (PStr ''analyzed.csv'') (PFloat 1 (- 2)) (PFloat (- 1) (- 2))
           (PStr ''https://hooks.example/T0'') (PInt 30)]"
proof -
  have h4: "py_truth (PBool True) = Inr True" by simp
  have sel: "horizon_entry pressed = Some 2" by (simp add: pressed_def)
  have applied: "run_forecasting sample_env (PStr ''analyzed.csv'') (PFloat 1 (- 2))
        (PFloat (- 1) (- 2)) (PStr ''https://hooks.example/T0'') (PInt 30) after_analysis
       = (Inr (PObj 1), after_analysis)"
    by (rule sample_forecasting)
  have settings:
    "ANALYZED_NEWS_FILE sample_config = PStr ''analyzed.csv''"
    "POSITIVE_THRESHOLD sample_config = PFloat 1 (- 2)"
    "NEGATIVE_THRESHOLD sample_config = PFloat (- 1) (- 2)"
    "SLACK_WEBHOOK_URL sample_config = PStr ''https://hooks.example/T0''"
    by (simp_all add: sample_config_def)
  have "app sample_env sample_module pressed Map.empty =
       (upto_stage3 sample_env sample_config pressed @ step3 sample_config (PInt 30)
          @ St_success ''Step 3/4: Forecasting complete!''
          # fst (stage4 sample_env sample_config (query sample_env sample_config pressed)
                 (PInt 30) (PObj 1) after_analysis),
        snd (stage4 sample_env sample_config (query sample_env sample_config pressed)
               (PInt 30) (PObj 1) after_analysis))
   \<and> filter is_forecaster_call (fst (app sample_env sample_module pressed Map.empty)) =
        [Call_run_forecasting (PStr ''analyzed.csv'') (PFloat 1 (- 2)) (PFloat (- 1) (- 2))
           (PStr ''https://hooks.example/T0'') (PInt 30)]"
    using forecaster_called_once [OF import_sample pressed_ui(1) sample_collection h4 sample_analysis h4]
    unfolding settings pressed_ui(2) applied prod.case sum.case by blast
  with import_sample pressed_ui(1) sample_collection sample_analysis h4 sel pressed_ui(2) applied
  show ?thesis by blast
qed

lemma stage4_begins:
  "take 2 (fst (stage4 E c q p fc d)) =
     [St_spinner ''Step 4/4: Creating dashboard visualization...'', Call_read_csv (ANALYZED_NEWS_FILE c)]"
  by (simp add: stage4_def render_body_def Let_def split: sum.splits option.splits)

text \<open>
  C4. Once stages 1 and 2 have passed, the script does not test what \<open>run_forecasting\<close>
  returns. If it returns any value, \<open>None\<close> included, the run shows the stage 3 success
  message and goes on with stage 4, which opens its spinner and reads the enriched file.
  If it raises, the run stops there with that exception uncaught, and no error message
  has been shown.
\<close>

theorem forecaster_result_not_checked:
  assumes "import_config m = Inr c" and "button_pressed u"
    and "run_collection E (query E c u) (RAW_NEWS_FILE c) (NEWS_API_KEY c) (GNEWS_API_KEY c)
           (TWITTER_BEARER_TOKEN c) d = (Inr v1, d1)"
    and "py_truth v1 = Inr True"
    and "run_analysis E (RAW_NEWS_FILE c) (ANALYZED_NEWS_FILE c) d1 = (Inr v2, d2)"
    and "py_truth v2 = Inr True"
  shows "case run_forecasting E (ANALYZED_NEWS_FILE c) (POSITIVE_THRESHOLD c) (NEGATIVE_THRESHOLD c)
                (SLACK_WEBHOOK_URL c) (forecast_periods u) d2 of
           (Inr forecast_df, d3) \<Rightarrow>
             app E m u d =
               (upto_stage3 E c u @ step3 c (forecast_periods u)
                  @ St_success ''Step 3/4: Forecasting complete!''
                  # fst (stage4 E c (query E c u) (forecast_periods u) forecast_df d3),
                snd (stage4 E c (query E c u) (forecast_periods u) forecast_df d3))
             \<and> take 2 (fst (stage4 E c (query E c u) (forecast_periods u) forecast_df d3)) =
                 [St_spinner ''Step 4/4: Creating dashboard visualization...'',
                  Call_read_csv (ANALYZED_NEWS_FILE c)]
         | (Inl e, d3) \<Rightarrow>
             app E m u d = (upto_stage3 E c u @ step3 c (forecast_periods u), Uncaught e)
             \<and> filter is_error (fst (app E m u d)) = []"
proof (cases "run_forecasting E (ANALYZED_NEWS_FILE c) (POSITIVE_THRESHOLD c) (NEGATIVE_THRESHOLD c)
                (SLACK_WEBHOOK_URL c) (forecast_periods u) d2")
  case (Pair r d3)
  show ?thesis
  proof (cases r)
    case (Inl e)
    with Pair have "stage3 E c (query E c u) (forecast_periods u) d2 =
        (step3 c (forecast_periods u), Uncaught e)"
      by (simp add: stage3_def)
    then have "app E m u d = (upto_stage3 E c u @ step3 c (forecast_periods u), Uncaught e)"
      by (simp add: reach_stage3 [OF assms])
    with Pair Inl show ?thesis
      by (simp add: upto_stage3_quiet step3_quiet)
  next
    case (Inr fc)
    with Pair show ?thesis
      by (simp add: reach_stage3 [OF assms] stage3_passed stage4_begins)
  qed
qed

theorem forecaster_result_not_checked_witness:
  "import_config sample_module = Inr sample_config \<and> button_pressed pressed
   \<and> run_collection forecaster_returns_none (query forecaster_returns_none sample_config pressed)
        (RAW_NEWS_FILE sample_config) (NEWS_API_KEY sample_config) (GNEWS_API_KEY sample_config)
        (TWITTER_BEARER_TOKEN sample_config) Map.empty = (Inr (PBool True), after_collection)
   \<and> py_truth (PBool True) = Inr True
   \<and> run_analysis forecaster_returns_none (RAW_NEWS_FILE sample_config)
        (ANALYZED_NEWS_FILE sample_config) after_collection = (Inr (PBool True), after_analysis)
   \<and> run_forecasting forecaster_returns_none (ANALYZED_NEWS_FILE sample_config)
        (POSITIVE_THRESHOLD sample_config) (NEGATIVE_THRESHOLD sample_config)
        (SLACK_WEBHOOK_URL sample_config) (forecast_periods pressed) after_analysis
       = (Inr PNone, after_analysis)
   \<and> app forecaster_returns_none sample_module pressed Map.empty =
       (upto_stage3 forecaster_returns_none sample_config pressed
          @ step3 sample_config (forecast_periods pressed)
          @ St_success ''Step 3/4: Forecasting complete!''
          # fst (stage4 forecaster_returns_none sample_config
                 (query forecaster_returns_none sample_config pressed) (forecast_periods pressed)
                 PNone after_analysis),
        snd (stage4 forecaster_returns_none sample_config
               (query forecaster_returns_none sample_config pressed) (forecast_periods pressed)
               PNone after_analysis))
   \<and> run_forecasting forecaster_raises (ANALYZED_NEWS_FILE sample_config)
        (POSITIVE_THRESHOLD sample_config) (NEGATIVE_THRESHOLD sample_config)
        (SLACK_WEBHOOK_URL sample_config) (forecast_periods pressed) after_analysis
       = (Inl \<lparr>exn_class = ValueError, exn_text = ''not enough data''\<rparr>, after_analysis)
   \<and> app forecaster_raises sample_module pressed Map.empty =
       (upto_stage3 forecaster_raises sample_config pressed
          @ step3 sample_config (forecast_periods pressed),
        Uncaught \<lparr>exn_class = ValueError, exn_text = ''not enough data''\<rparr>)
   \<and> filter is_error (fst (app forecaster_raises sample_module pressed Map.empty)) = []"
proof -
  have h3: "run_collection forecaster_returns_none (query forecaster_returns_none sample_config pressed)
        (RAW_NEWS_FILE sample_config) (NEWS_API_KEY sample_config) (GNEWS_API_KEY sample_config)
        (TWITTER_BEARER_TOKEN sample_config) Map.empty = (Inr (PBool True), after_collection)"
    by (simp add: forecaster_returns_none_def sample_env_def sample_paths after_collection_def)
  have h4: "py_truth (PBool True) = Inr True" by simp
  have h5: "run_analysis forecaster_returns_none (RAW_NEWS_FILE sample_config)
        (ANALYZED_NEWS_FILE sample_config) after_collection = (Inr (PBool True), after_analysis)"
    by (simp add: forecaster_returns_none_def sample_env_def sample_paths after_analysis_def)
  have h7: "run_forecasting forecaster_returns_none (ANALYZED_NEWS_FILE sample_config)
        (POSITIVE_THRESHOLD sample_config) (NEGATIVE_THRESHOLD sample_config)
        (SLACK_WEBHOOK_URL sample_config) (forecast_periods pressed) after_analysis
       = (Inr PNone, after_analysis)"
    by (simp add: forecaster_returns_none_def)
  have "app forecaster_returns_none sample_module pressed Map.empty =
       (upto_stage3 forecaster_returns_none sample_config pressed
          @ step3 sample_config (forecast_periods pressed)
          @ St_success ''Step 3/4: Forecasting complete!''
          # fst (stage4 forecaster_returns_none sample_config
                 (query forecaster_returns_none sample_config pressed) (forecast_periods pressed)
                 PNone after_analysis),
        snd (stage4 forecaster_returns_none sample_config
               (query forecaster_returns_none sample_config pressed) (forecast_periods pressed)
               PNone after_analysis))"
    using forecaster_result_not_checked [OF import_sample pressed_ui(1) h3 h4 h5 h4]
    by (simp add: h7)
  moreover
  have r3: "run_collection forecaster_raises (query forecaster_raises sample_config pressed)
        (RAW_NEWS_FILE sample_config) (NEWS_API_KEY sample_config) (GNEWS_API_KEY sample_config)
        (TWITTER_BEARER_TOKEN sample_config) Map.empty = (Inr (PBool True), after_collection)"
    by (simp add: forecaster_raises_def sample_env_def sample_paths after_collection_def)
  have r5: "run_analysis forecaster_raises (RAW_NEWS_FILE sample_config)
        (ANALYZED_NEWS_FILE sample_config) after_collection = (Inr (PBool True), after_analysis)"
    by (simp add: forecaster_raises_def sample_env_def sample_paths after_analysis_def)
  have r7: "run_forecasting forecaster_raises (ANALYZED_NEWS_FILE sample_config)
        (POSITIVE_THRESHOLD sample_config) (NEGATIVE_THRESHOLD sample_config)
        (SLACK_WEBHOOK_URL sample_config) (forecast_periods pressed) after_analysis
       = (Inl \<lparr>exn_class = ValueError, exn_text = ''not enough data''\<rparr>, after_analysis)"
    by (simp add: forecaster_raises_def)
  have "app forecaster_raises sample_module pressed Map.empty =
       (upto_stage3 forecaster_raises sample_config pressed
          @ step3 sample_config (forecast_periods pressed),
        Uncaught \<lparr>exn_class = ValueError, exn_text = ''not enough data''\<rparr>)
   \<and> filter is_error (fst (app forecaster_raises sample_module pressed Map.empty)) = []"
    using forecaster_result_not_checked [OF import_sample pressed_ui(1) r3 h4 r5 h4]
    unfolding r7 prod.case sum.case by blast
  ultimately show ?thesis
    using import_sample pressed_ui(1) h3 h4 h5 h7 r7 by blast
qed

subsection \<open>Without the button\<close>

text \<open>
  C8. When the settings were imported and the button is not pressed, the run is the
  controls followed by the one prompt to enter a topic and click the button: none of the
  four pipeline functions is called, and the prompt is all the page shows.
\<close>

theorem no_trigger_no_pipeline:
  assumes "import_config m = Inr c" and "\<not> button_pressed u"
  shows "app E m u d =
           (controls c
              @ [St_info (''Enter a topic in the sidebar and click '' @ quoted ''Generate New Report''
                          @ '' to begin.'')],
            Completed)
         \<and> filter is_collector_call (fst (app E m u d)) = []
         \<and> filter is_analyzer_call (fst (app E m u d)) = []
         \<and> filter is_forecaster_call (fst (app E m u d)) = []
         \<and> filter is_presenter_call (fst (app E m u d)) = []
         \<and> filter is_output (fst (app E m u d)) =
             [St_info (''Enter a topic in the sidebar and click '' @ quoted ''Generate New Report''
                       @ '' to begin.'')]"
  using assms by (simp add: app_def dashboard_def controls_quiet)

theorem no_trigger_no_pipeline_witness:
  "import_config sample_module = Inr sample_config \<and> \<not> button_pressed idle
   \<and> app sample_env sample_module idle Map.empty =
       (controls sample_config
          @ [St_info (''Enter a topic in the sidebar and click '' @ quoted ''Generate New Report''
                      @ '' to begin.'')],
        Completed)
   \<and> filter is_output (fst (app sample_env sample_module idle Map.empty)) =
       [St_info (''Enter a topic in the sidebar and click '' @ quoted ''Generate New Report''
                 @ '' to begin.'')]"
proof -
  have h2: "\<not> button_pressed idle" by (simp add: idle_def)
  from no_trigger_no_pipeline [OF import_sample h2] import_sample h2
  show ?thesis by blast
qed

subsection \<open>Stage 4: the two handlers\<close>

lemma upto_stage4_not_done:
  "St_success ''Dashboard generated successfully!'' \<notin> set (upto_stage4 E c u)"
  by (simp add: upto_stage4_def upto_stage3_def controls_def step1_def step2_def step3_def)

lemma stage4_missing_file:
  assumes "ANALYZED_NEWS_FILE c = PStr path" and "d path = None"
  shows "stage4 E c q p fc d =
           ([St_spinner ''Step 4/4: Creating dashboard visualization...'',
             Call_read_csv (PStr path),
             St_error (''Could not find the analyzed data file: '' @ path)],
            Completed)"
  using assms by (simp add: stage4_def render_body_def pd_read_csv_def format_value_def)

lemma stage4_missing_column:
  assumes "ANALYZED_NEWS_FILE c = PStr path" and "d path = Some txt"
    and "parse_csv E txt = Inr df" and "map_of df ''publishedAt'' = None"
  shows "stage4 E c q p fc d =
           ([St_spinner ''Step 4/4: Creating dashboard visualization...'',
             Call_read_csv (PStr path),
             St_error (''An error occurred while creating the dashboard: '' @ quoted ''publishedAt'')],
            Completed)"
  using assms by (simp add: stage4_def render_body_def pd_read_csv_def getitem_def)

lemma stage4_not_found:
  assumes "render_body E c q p fc d = (evs, Some e)" and "isinstance_FileNotFoundError e"
  shows "stage4 E c q p fc d =
           (St_spinner ''Step 4/4: Creating dashboard visualization...'' # evs
              @ [St_error (''Could not find the analyzed data file: ''
                           @ format_value E (ANALYZED_NEWS_FILE c))],
            Completed)"
  using assms by (simp add: stage4_def)

lemma render_body_no_error:
  assumes "render_body E c q p fc d = (evs, r)"
  shows "filter is_error evs = []"
  using render_body_events [of _ E c q p fc d] assms by (simp add: filter_empty_conv)

text \<open>
  C5. When a run reaches stage 4 and the enriched file, at the configured path, is not on
  the disk the Forecaster left, the run ends normally with the one error naming that path:
  it shows no other error, no chart, and not the message that the dashboard was generated.
\<close>

theorem missing_enriched_file:
  assumes "import_config m = Inr c" and "button_pressed u"
    and "run_collection E (query E c u) (RAW_NEWS_FILE c) (NEWS_API_KEY c) (GNEWS_API_KEY c)
           (TWITTER_BEARER_TOKEN c) d = (Inr v1, d1)"
    and "py_truth v1 = Inr True"
    and "run_analysis E (RAW_NEWS_FILE c) (ANALYZED_NEWS_FILE c) d1 = (Inr v2, d2)"
    and "py_truth v2 = Inr True"
    and "run_forecasting E (ANALYZED_NEWS_FILE c) (POSITIVE_THRESHOLD c) (NEGATIVE_THRESHOLD c)
           (SLACK_WEBHOOK_URL c) (forecast_periods u) d2 = (Inr fc, d3)"
    and "ANALYZED_NEWS_FILE c = PStr path" and "d3 path = None"
  shows "app E m u d =
           (upto_stage4 E c u
              @ [St_spinner ''Step 4/4: Creating dashboard visualization...'',
                 Call_read_csv (PStr path),
                 St_error (''Could not find the analyzed data file: '' @ path)],
            Completed)
         \<and> filter is_error (fst (app E m u d)) =
             [St_error (''Could not find the analyzed data file: '' @ path)]
         \<and> filter is_chart (fst (app E m u d)) = []
         \<and> St_success ''Dashboard generated successfully!'' \<notin> set (fst (app E m u d))"
  by (simp add: reach_stage4 [OF assms(1-7)] stage4_missing_file [where d = d3, OF assms(8,9)]
      upto_stage4_quiet upto_stage4_not_done)

lemma removed_collection:
  "run_collection enriched_file_removed q (RAW_NEWS_FILE sample_config) k1 k2 k3 Map.empty
     = (Inr (PBool True), after_collection)"
  by (simp add: enriched_file_removed_def sample_env_def sample_paths after_collection_def)

lemma removed_analysis:
  "run_analysis enriched_file_removed (RAW_NEWS_FILE sample_config)
     (ANALYZED_NEWS_FILE sample_config) after_collection = (Inr (PBool True), after_analysis)"
  by (simp add: enriched_file_removed_def sample_env_def sample_paths after_analysis_def)

lemma removed_forecasting:
  "run_forecasting enriched_file_removed (ANALYZED_NEWS_FILE sample_config) pos neg hook p
     after_analysis = (Inr (PObj 1), after_analysis(''analyzed.csv'' := None))"
  by (simp add: enriched_file_removed_def sample_paths)

theorem missing_enriched_file_witness:
  "import_config sample_module = Inr sample_config \<and> button_pressed pressed
   \<and> run_collection enriched_file_removed (query enriched_file_removed sample_config pressed)
        (RAW_NEWS_FILE sample_config) (NEWS_API_KEY sample_config) (GNEWS_API_KEY sample_config)
        (TWITTER_BEARER_TOKEN sample_config) Map.empty = (Inr (PBool True), after_collection)
   \<and> py_truth (PBool True) = Inr True
   \<and> run_analysis enriched_file_removed (RAW_NEWS_FILE sample_config)
        (ANALYZED_NEWS_FILE sample_config) after_collection = (Inr (PBool True), after_analysis)
   \<and> run_forecasting enriched_file_removed (ANALYZED_NEWS_FILE sample_config)
        (POSITIVE_THRESHOLD sample_config) (NEGATIVE_THRESHOLD sample_config)
        (SLACK_WEBHOOK_URL sample_config) (forecast_periods pressed) after_analysis
       = (Inr (PObj 1), after_analysis(''analyzed.csv'' := None))
   \<and> ANALYZED_NEWS_FILE sample_config = PStr ''analyzed.csv''
   \<and> (after_analysis(''analyzed.csv'' := None)) ''analyzed.csv'' = None
   \<and> app enriched_file_removed sample_module pressed Map.empty =
       (upto_stage4 enriched_file_removed sample_config pressed
          @ [St_spinner ''Step 4/4: Creating dashboard visualization...'',
             Call_read_csv (PStr ''analyzed.csv''),
             St_error (''Could not find the analyzed data file: '' @ ''analyzed.csv'')],
        Completed)
   \<and> filter is_error (fst (app enriched_file_removed sample_module pressed Map.empty)) =
       [St_error (''Could not find the analyzed data file: '' @ ''analyzed.csv'')]
   \<and> filter is_chart (fst (app enriched_file_removed sample_module pressed Map.empty)) = []"
proof -
  have h4: "py_truth (PBool True) = Inr True" by simp
  have h9: "(after_analysis(''analyzed.csv'' := None)) ''analyzed.csv'' = None" by simp
  from missing_enriched_file [OF import_sample pressed_ui(1) removed_collection h4
        removed_analysis h4 removed_forecasting sample_paths(2) h9]
    import_sample pressed_ui(1) removed_collection h4 removed_analysis removed_forecasting
    sample_paths(2) h9
  show ?thesis by blast
qed

text \<open>
  C10. When a run reaches stage 4 and the enriched file is on disk and loads, but has no
  \<open>publishedAt\<close> column, the run ends normally with the one generic error, whose text
  ends with the text of the \<open>KeyError\<close> (the quoted column name); it shows neither the
  missing-file error nor a chart nor the message that the dashboard was generated.
\<close>

theorem missing_timestamp_column:
  assumes "import_config m = Inr c" and "button_pressed u"
    and "run_collection E (query E c u) (RAW_NEWS_FILE c) (NEWS_API_KEY c) (GNEWS_API_KEY c)
           (TWITTER_BEARER_TOKEN c) d = (Inr v1, d1)"
    and "py_truth v1 = Inr True"
    and "run_analysis E (RAW_NEWS_FILE c) (ANALYZED_NEWS_FILE c) d1 = (Inr v2, d2)"
    and "py_truth v2 = Inr True"
    and "run_forecasting E (ANALYZED_NEWS_FILE c) (POSITIVE_THRESHOLD c) (NEGATIVE_THRESHOLD c)
           (SLACK_WEBHOOK_URL c) (forecast_periods u) d2 = (Inr fc, d3)"
    and "ANALYZED_NEWS_FILE c = PStr path" and "d3 path = Some txt"
    and "parse_csv E txt = Inr df" and "map_of df ''publishedAt'' = None"
  shows "app E m u d =
           (upto_stage4 E c u
              @ [St_spinner ''Step 4/4: Creating dashboard visualization...'',
                 Call_read_csv (PStr path),
                 St_error (''An error occurred while creating the dashboard: ''
                           @ exn_text \<lparr>exn_class = KeyError, exn_text = quoted ''publishedAt''\<rparr>)],
            Completed)
         \<and> filter is_error (fst (app E m u d)) =
             [St_error (''An error occurred while creating the dashboard: '' @ quoted ''publishedAt'')]
         \<and> filter is_chart (fst (app E m u d)) = []
         \<and> St_success ''Dashboard generated successfully!'' \<notin> set (fst (app E m u d))"
  by (simp add: reach_stage4 [OF assms(1-7)] stage4_missing_column [where d = d3, OF assms(8-11)]
      upto_stage4_quiet upto_stage4_not_done)

lemma untimed_collection:
  "run_collection analyzer_omits_timestamps q (RAW_NEWS_FILE sample_config) k1 k2 k3 Map.empty
     = (Inr (PBool True), after_collection)"
  by (simp add: analyzer_omits_timestamps_def sample_env_def sample_paths after_collection_def)

lemma untimed_analysis:
  "run_analysis analyzer_omits_timestamps (RAW_NEWS_FILE sample_config)
     (ANALYZED_NEWS_FILE sample_config) after_collection
     = (Inr (PBool True), after_collection(''analyzed.csv'' \<mapsto> ''untimed''))"
  by (simp add: analyzer_omits_timestamps_def sample_paths)

lemma untimed_forecasting:
  "run_forecasting analyzer_omits_timestamps inp pos neg hook p d = (Inr (PObj 1), d)"
  by (simp add: analyzer_omits_timestamps_def sample_env_def)

lemma untimed_parse: "parse_csv analyzer_omits_timestamps ''untimed'' = Inr (tl sample_frame)"
  by (simp add: analyzer_omits_timestamps_def sample_env_def)

theorem missing_timestamp_column_witness:
  "import_config sample_module = Inr sample_config \<and> button_pressed pressed
   \<and> run_collection analyzer_omits_timestamps (query analyzer_omits_timestamps sample_config pressed)
        (RAW_NEWS_FILE sample_config) (NEWS_API_KEY sample_config) (GNEWS_API_KEY sample_config)
        (TWITTER_BEARER_TOKEN sample_config) Map.empty = (Inr (PBool True), after_collection)
   \<and> py_truth (PBool True) = Inr True
   \<and> run_analysis analyzer_omits_timestamps (RAW_NEWS_FILE sample_config)
        (ANALYZED_NEWS_FILE sample_config) after_collection
       = (Inr (PBool True), after_collection(''analyzed.csv'' \<mapsto> ''untimed''))
   \<and> run_forecasting analyzer_omits_timestamps (ANALYZED_NEWS_FILE sample_config)
        (POSITIVE_THRESHOLD sample_config) (NEGATIVE_THRESHOLD sample_config)
        (SLACK_WEBHOOK_URL sample_config) (forecast_periods pressed)
        (after_collection(''analyzed.csv'' \<mapsto> ''untimed''))
       = (Inr (PObj 1), after_collection(''analyzed.csv'' \<mapsto> ''untimed''))
   \<and> ANALYZED_NEWS_FILE sample_config = PStr ''analyzed.csv''
   \<and> (after_collection(''analyzed.csv'' \<mapsto> ''untimed'')) ''analyzed.csv'' = Some ''untimed''
   \<and> parse_csv analyzer_omits_timestamps ''untimed'' = Inr (tl sample_frame)
   \<and> map_of (tl sample_frame) ''publishedAt'' = None
   \<and> filter is_error (fst (app analyzer_omits_timestamps sample_module pressed Map.empty)) =
       [St_error (''An error occurred while creating the dashboard: '' @ quoted ''publishedAt'')]
   \<and> filter is_chart (fst (app analyzer_omits_timestamps sample_module pressed Map.empty)) = []"
proof -
  have h4: "py_truth (PBool True) = Inr True" by simp
  have h9: "(after_collection(''analyzed.csv'' \<mapsto> ''untimed'')) ''analyzed.csv'' = Some ''untimed''"
    by simp
  have h11: "map_of (tl sample_frame) ''publishedAt'' = None"
    by (simp add: sample_frame_def)
  have "filter is_error (fst (app analyzer_omits_timestamps sample_module pressed Map.empty)) =
       [St_error (''An error occurred while creating the dashboard: '' @ quoted ''publishedAt'')]
   \<and> filter is_chart (fst (app analyzer_omits_timestamps sample_module pressed Map.empty)) = []"
    using missing_timestamp_column [OF import_sample pressed_ui(1) untimed_collection h4
        untimed_analysis h4 untimed_forecasting sample_paths(2) h9 untimed_parse h11]
    by blast
  with import_sample pressed_ui(1) untimed_collection h4 untimed_analysis untimed_forecasting
    sample_paths(2) h9 untimed_parse h11
  show ?thesis by blast
qed

subsection \<open>Stage 4: any missing file\<close>

lemma stage4_unfolded:
  "stage4 E c q p fc d =
     (let loading = [St_spinner ''Step 4/4: Creating dashboard visualization...'',
                     Call_read_csv (ANALYZED_NEWS_FILE c)]
      in case pd_read_csv E d (ANALYZED_NEWS_FILE c) of
        Inl e \<Rightarrow> except_clauses E c loading e
      | Inr df \<Rightarrow>
         (case getitem df ''publishedAt'' of
            Inl e \<Rightarrow> except_clauses E c loading e
          | Inr col \<Rightarrow>
             (case to_datetime E col of
                Inl e \<Rightarrow> except_clauses E c (loading @ [Call_to_datetime col]) e
              | Inr ts \<Rightarrow>
                 (case generate_dashboard_figure E
                         (PFrame (setitem df ''publishedAt'' (Datetime ts))) fc q p d of
                    Inl e \<Rightarrow>
                      except_clauses E c
                        (loading @ [Call_to_datetime col,
                                    Call_generate_dashboard_figure
                                      (PFrame (setitem df ''publishedAt'' (Datetime ts))) fc q p]) e
                  | Inr fig \<Rightarrow>
                     (case pyplot E fig of
                        Some e \<Rightarrow>
                          except_clauses E c
                            (loading @ [Call_to_datetime col,
                                        Call_generate_dashboard_figure
                                          (PFrame (setitem df ''publishedAt'' (Datetime ts))) fc q p,
                                        St_pyplot fig]) e
                      | None \<Rightarrow>
                          (loading @ [Call_to_datetime col,
                                      Call_generate_dashboard_figure
                                        (PFrame (setitem df ''publishedAt'' (Datetime ts))) fc q p,
                                      St_pyplot fig,
                                      St_success ''Dashboard generated successfully!''],
                           Completed))))))"
  by (simp add: stage4_def render_body_def except_clauses_def Let_def
      split: sum.splits option.splits)

text \<open>
  C9. When a run reaches stage 4 and a \<open>FileNotFoundError\<close> is raised inside the \<open>try\<close>
  body, by the read of the enriched file, by the timestamp conversion, by the Presenter
  or by the chart display, the run ends normally with the one error that names the
  enriched file path. The sample run below has the file on disk and the Presenter
  raising, so that error does not tell that the file is absent.
\<close>

theorem any_file_not_found_names_enriched_file:
  assumes "import_config m = Inr c" and "button_pressed u"
    and "run_collection E (query E c u) (RAW_NEWS_FILE c) (NEWS_API_KEY c) (GNEWS_API_KEY c)
           (TWITTER_BEARER_TOKEN c) d = (Inr v1, d1)"
    and "py_truth v1 = Inr True"
    and "run_analysis E (RAW_NEWS_FILE c) (ANALYZED_NEWS_FILE c) d1 = (Inr v2, d2)"
    and "py_truth v2 = Inr True"
    and "run_forecasting E (ANALYZED_NEWS_FILE c) (POSITIVE_THRESHOLD c) (NEGATIVE_THRESHOLD c)
           (SLACK_WEBHOOK_URL c) (forecast_periods u) d2 = (Inr fc, d3)"
    and "isinstance_FileNotFoundError e"
    and "pd_read_csv E d3 (ANALYZED_NEWS_FILE c) = Inl e \<and> evs = []
         \<or> pd_read_csv E d3 (ANALYZED_NEWS_FILE c) = Inr df
           \<and> getitem df ''publishedAt'' = Inr col
           \<and> (to_datetime E col = Inl e \<and> evs = [Call_to_datetime col]
              \<or> to_datetime E col = Inr ts
                \<and> (generate_dashboard_figure E (PFrame (setitem df ''publishedAt'' (Datetime ts)))
                       fc (query E c u) (forecast_periods u) d3 = Inl e
                     \<and> evs = [Call_to_datetime col,
                              Call_generate_dashboard_figure
                                (PFrame (setitem df ''publishedAt'' (Datetime ts))) fc
                                (query E c u) (forecast_periods u)]
                   \<or> generate_dashboard_figure E (PFrame (setitem df ''publishedAt'' (Datetime ts)))
                       fc (query E c u) (forecast_periods u) d3 = Inr fig
                     \<and> pyplot E fig = Some e
                     \<and> evs = [Call_to_datetime col,
                              Call_generate_dashboard_figure
                                (PFrame (setitem df ''publishedAt'' (Datetime ts))) fc
                                (query E c u) (forecast_periods u),
                              St_pyplot fig]))"
  shows "app E m u d =
           (upto_stage4 E c u
              @ [St_spinner ''Step 4/4: Creating dashboard visualization...'',
                 Call_read_csv (ANALYZED_NEWS_FILE c)]
              @ evs
              @ [St_error (''Could not find the analyzed data file: ''
                           @ format_value E (ANALYZED_NEWS_FILE c))],
            Completed)
         \<and> filter is_error (fst (app E m u d)) =
             [St_error (''Could not find the analyzed data file: ''
                        @ format_value E (ANALYZED_NEWS_FILE c))]"
  using assms(8,9)
  by (auto simp: reach_stage4 [OF assms(1-7)] stage4_unfolded Let_def except_clauses_def
      upto_stage4_quiet)

lemma font_collection:
  "run_collection presenter_misses_font q (RAW_NEWS_FILE sample_config) k1 k2 k3 Map.empty
     = (Inr (PBool True), after_collection)"
  by (simp add: presenter_misses_font_def sample_env_def sample_paths after_collection_def)

lemma font_analysis:
  "run_analysis presenter_misses_font (RAW_NEWS_FILE sample_config)
     (ANALYZED_NEWS_FILE sample_config) after_collection = (Inr (PBool True), after_analysis)"
  by (simp add: presenter_misses_font_def sample_env_def sample_paths after_analysis_def)

lemma font_forecasting:
  "run_forecasting presenter_misses_font inp pos neg hook p d = (Inr (PObj 1), d)"
  by (simp add: presenter_misses_font_def sample_env_def)

lemma enriched_present: "after_analysis ''analyzed.csv'' = Some ''enriched''"
  by (simp add: after_analysis_def)

lemma converted_frame:
  "setitem sample_frame ''publishedAt'' (Datetime [Some 0]) =
     [(''publishedAt'', Datetime [Some 0]), (''title'', Parsed [''Chips'']),
      (''sentiment'', Parsed [''0.4''])]"
  by (simp add: setitem_def sample_frame_def)

theorem any_file_not_found_names_enriched_file_witness:
  "import_config sample_module = Inr sample_config \<and> button_pressed pressed
   \<and> run_collection presenter_misses_font (query presenter_misses_font sample_config pressed)
        (RAW_NEWS_FILE sample_config) (NEWS_API_KEY sample_config) (GNEWS_API_KEY sample_config)
        (TWITTER_BEARER_TOKEN sample_config) Map.empty = (Inr (PBool True), after_collection)
   \<and> py_truth (PBool True) = Inr True
   \<and> run_analysis presenter_misses_font (RAW_NEWS_FILE sample_config)
        (ANALYZED_NEWS_FILE sample_config) after_collection = (Inr (PBool True), after_analysis)
   \<and> run_forecasting presenter_misses_font (ANALYZED_NEWS_FILE sample_config)
        (POSITIVE_THRESHOLD sample_config) (NEGATIVE_THRESHOLD sample_config)
        (SLACK_WEBHOOK_URL sample_config) (forecast_periods pressed) after_analysis
       = (Inr (PObj 1), after_analysis)
   \<and> isinstance_FileNotFoundError not_found
   \<and> after_analysis ''analyzed.csv'' = Some ''enriched''
   \<and> pd_read_csv presenter_misses_font after_analysis (ANALYZED_NEWS_FILE sample_config)
       = Inr sample_frame
   \<and> getitem sample_frame ''publishedAt'' = Inr (Parsed [''2024-05-01T10:00:00Z''])
   \<and> to_datetime presenter_misses_font (Parsed [''2024-05-01T10:00:00Z'']) = Inr [Some 0]
   \<and> generate_dashboard_figure presenter_misses_font
        (PFrame (setitem sample_frame ''publishedAt'' (Datetime [Some 0]))) (PObj 1)
        (query presenter_misses_font sample_config pressed) (forecast_periods pressed)
        after_analysis = Inl not_found
   \<and> app presenter_misses_font sample_module pressed Map.empty =
       (upto_stage4 presenter_misses_font sample_config pressed
          @ [St_spinner ''Step 4/4: Creating dashboard visualization...'',
             Call_read_csv (ANALYZED_NEWS_FILE sample_config)]
          @ [Call_to_datetime (Parsed [''2024-05-01T10:00:00Z'']),
             Call_generate_dashboard_figure
               (PFrame (setitem sample_frame ''publishedAt'' (Datetime [Some 0]))) (PObj 1)
               (query presenter_misses_font sample_config pressed) (forecast_periods pressed)]
          @ [St_error (''Could not find the analyzed data file: ''
                       @ format_value presenter_misses_font (ANALYZED_NEWS_FILE sample_config))],
        Completed)
   \<and> filter is_error (fst (app presenter_misses_font sample_module pressed Map.empty)) =
       [St_error (''Could not find the analyzed data file: ''
                  @ format_value presenter_misses_font (ANALYZED_NEWS_FILE sample_config))]
   \<and> format_value presenter_misses_font (ANALYZED_NEWS_FILE sample_config) = ''analyzed.csv''"
proof -
  have h4: "py_truth (PBool True) = Inr True" by simp
  have h8: "isinstance_FileNotFoundError not_found" by (simp add: not_found_def)
  have loaded: "pd_read_csv presenter_misses_font after_analysis (ANALYZED_NEWS_FILE sample_config)
       = Inr sample_frame"
    by (simp add: pd_read_csv_def sample_paths enriched_present presenter_misses_font_def
        sample_env_def)
  have column: "getitem sample_frame ''publishedAt'' = Inr (Parsed [''2024-05-01T10:00:00Z''])"
    by (simp add: getitem_def sample_frame_def)
  have converted: "to_datetime presenter_misses_font (Parsed [''2024-05-01T10:00:00Z'']) = Inr [Some 0]"
    by (simp add: presenter_misses_font_def sample_env_def)
  have raised: "generate_dashboard_figure presenter_misses_font
        (PFrame (setitem sample_frame ''publishedAt'' (Datetime [Some 0]))) (PObj 1)
        (query presenter_misses_font sample_config pressed) (forecast_periods pressed)
        after_analysis = Inl not_found"
    by (simp add: presenter_misses_font_def)
  have shown: "format_value presenter_misses_font (ANALYZED_NEWS_FILE sample_config) = ''analyzed.csv''"
    by (simp add: format_value_def sample_paths)
  have h9: "pd_read_csv presenter_misses_font after_analysis (ANALYZED_NEWS_FILE sample_config)
              = Inl not_found
            \<and> [Call_to_datetime (Parsed [''2024-05-01T10:00:00Z'']),
               Call_generate_dashboard_figure
                 (PFrame (setitem sample_frame ''publishedAt'' (Datetime [Some 0]))) (PObj 1)
                 (query presenter_misses_font sample_config pressed) (forecast_periods pressed)] = []
         \<or> pd_read_csv presenter_misses_font after_analysis (ANALYZED_NEWS_FILE sample_config)
              = Inr sample_frame
           \<and> getitem sample_frame ''publishedAt'' = Inr (Parsed [''2024-05-01T10:00:00Z''])
           \<and> (to_datetime presenter_misses_font (Parsed [''2024-05-01T10:00:00Z'']) = Inl not_found
                \<and> [Call_to_datetime (Parsed [''2024-05-01T10:00:00Z'']),
                   Call_generate_dashboard_figure
                     (PFrame (setitem sample_frame ''publishedAt'' (Datetime [Some 0]))) (PObj 1)
                     (query presenter_misses_font sample_config pressed) (forecast_periods pressed)]
                  = [Call_to_datetime (Parsed [''2024-05-01T10:00:00Z''])]
              \<or> to_datetime presenter_misses_font (Parsed [''2024-05-01T10:00:00Z'']) = Inr [Some 0]
                \<and> (generate_dashboard_figure presenter_misses_font
                       (PFrame (setitem sample_frame ''publishedAt'' (Datetime [Some 0])))
                       (PObj 1) (query presenter_misses_font sample_config pressed)
                       (forecast_periods pressed) after_analysis = Inl not_found
                     \<and> [Call_to_datetime (Parsed [''2024-05-01T10:00:00Z'']),
                        Call_generate_dashboard_figure
                          (PFrame (setitem sample_frame ''publishedAt'' (Datetime [Some 0]))) (PObj 1)
                          (query presenter_misses_font sample_config pressed) (forecast_periods pressed)]
                       = [Call_to_datetime (Parsed [''2024-05-01T10:00:00Z'']),
                          Call_generate_dashboard_figure
                            (PFrame (setitem sample_frame ''publishedAt'' (Datetime [Some 0])))
                            (PObj 1) (query presenter_misses_font sample_config pressed)
                            (forecast_periods pressed)]
                   \<or> generate_dashboard_figure presenter_misses_font
                       (PFrame (setitem sample_frame ''publishedAt'' (Datetime [Some 0])))
                       (PObj 1) (query presenter_misses_font sample_config pressed)
                       (forecast_periods pressed) after_analysis = Inr (PObj 2)
                     \<and> pyplot presenter_misses_font (PObj 2) = Some not_found
                     \<and> [Call_to_datetime (Parsed [''2024-05-01T10:00:00Z'']),
                        Call_generate_dashboard_figure
                          (PFrame (setitem sample_frame ''publishedAt'' (Datetime [Some 0]))) (PObj 1)
                          (query presenter_misses_font sample_config pressed) (forecast_periods pressed)]
                       = [Call_to_datetime (Parsed [''2024-05-01T10:00:00Z'']),
                          Call_generate_dashboard_figure
                            (PFrame (setitem sample_frame ''publishedAt'' (Datetime [Some 0])))
                            (PObj 1) (query presenter_misses_font sample_config pressed)
                            (forecast_periods pressed),
                          St_pyplot (PObj 2)]))"
    using loaded column converted raised by blast
  from any_file_not_found_names_enriched_file [OF import_sample pressed_ui(1) font_collection h4
        font_analysis h4 font_forecasting h8 h9]
    import_sample pressed_ui(1) font_collection h4 font_analysis font_forecasting
    h8 enriched_present loaded column converted raised shown
  show ?thesis by blast
qed

subsection \<open>Stage 4: what the Presenter is given\<close>

lemma stage4_read_once:
  "filter is_read_csv_call (fst (stage4 E c q p fc d)) = [Call_read_csv (ANALYZED_NEWS_FILE c)]"
  by (simp add: stage4_def render_body_def Let_def split: sum.splits option.splits)

lemma stage4_presenter_calls:
  "filter is_presenter_call (fst (stage4 E c q p fc d)) =
     (case pd_read_csv E d (ANALYZED_NEWS_FILE c) of
        Inl e \<Rightarrow> []
      | Inr df \<Rightarrow>
         (case getitem df ''publishedAt'' of
            Inl e \<Rightarrow> []
          | Inr col \<Rightarrow>
             (case to_datetime E col of
                Inl e \<Rightarrow> []
              | Inr ts \<Rightarrow>
                 [Call_generate_dashboard_figure
                    (PFrame (setitem df ''publishedAt'' (Datetime ts))) fc q p])))"
  by (simp add: stage4_def render_body_def Let_def split: sum.splits option.splits)

lemma getitem_setitem: "getitem (setitem df name col) name = Inr col"
  by (simp add: getitem_def setitem_def update_conv')

lemma removed_run:
  "app enriched_file_removed sample_module pressed Map.empty =
     (upto_stage4 enriched_file_removed sample_config pressed
        @ [St_spinner ''Step 4/4: Creating dashboard visualization...'',
           Call_read_csv (PStr ''analyzed.csv''),
           St_error ''Could not find the analyzed data file: analyzed.csv''],
      Completed)"
proof -
  have h4: "py_truth (PBool True) = Inr True" by simp
  have h9: "(after_analysis(''analyzed.csv'' := None)) ''analyzed.csv'' = None" by simp
  show ?thesis
    by (simp add: reach_stage4 [OF import_sample pressed_ui(1) removed_collection h4
          removed_analysis h4 removed_forecasting]
        stage4_missing_file [where d = "after_analysis(''analyzed.csv'' := None)",
          OF sample_paths(2) h9])
qed

text \<open>
  C7, as stated, fails: a run can reach stage 4 and never call the Presenter. In the
  sample run whose enriched file is gone when stage 4 starts, the stage 4 spinner is
  shown, the file is read for, and the run holds no call of
  \<open>generate_dashboard_figure\<close>.
\<close>

theorem stage4_without_presenter_call:
  "St_spinner ''Step 4/4: Creating dashboard visualization...''
     \<in> set (fst (app enriched_file_removed sample_module pressed Map.empty))
   \<and> filter is_read_csv_call (fst (app enriched_file_removed sample_module pressed Map.empty))
       = [Call_read_csv (PStr ''analyzed.csv'')]
   \<and> filter is_presenter_call (fst (app enriched_file_removed sample_module pressed Map.empty)) = []"
  by (simp add: removed_run upto_stage4_quiet)

text \<open>
  C7, amended. In every run that reaches stage 4 the script reads the enriched file once,
  at the configured path, from the disk as stage 3 left it. If the file loads, has a
  \<open>publishedAt\<close> column and the conversion of that column succeeds, the script applies
  the Presenter once, to the loaded table whose \<open>publishedAt\<close> column is replaced by the
  converted, datetime-typed one, to the value stage 3 returned, to the topic and to the
  horizon: the figure it returns is the chart the run shows, and an exception it raises
  goes to the \<open>except\<close> clauses. Otherwise the Presenter is not called.
\<close>

theorem presenter_given_reloaded_dataset:
  assumes "import_config m = Inr c" and "button_pressed u"
    and "run_collection E (query E c u) (RAW_NEWS_FILE c) (NEWS_API_KEY c) (GNEWS_API_KEY c)
           (TWITTER_BEARER_TOKEN c) d = (Inr v1, d1)"
    and "py_truth v1 = Inr True"
    and "run_analysis E (RAW_NEWS_FILE c) (ANALYZED_NEWS_FILE c) d1 = (Inr v2, d2)"
    and "py_truth v2 = Inr True"
    and "run_forecasting E (ANALYZED_NEWS_FILE c) (POSITIVE_THRESHOLD c) (NEGATIVE_THRESHOLD c)
           (SLACK_WEBHOOK_URL c) (forecast_periods u) d2 = (Inr fc, d3)"
  shows "app E m u d =
           (let loading = upto_stage4 E c u
                            @ [St_spinner ''Step 4/4: Creating dashboard visualization...'',
                               Call_read_csv (ANALYZED_NEWS_FILE c)]
            in case pd_read_csv E d3 (ANALYZED_NEWS_FILE c) of
              Inl e \<Rightarrow> except_clauses E c loading e
            | Inr df \<Rightarrow>
               (case getitem df ''publishedAt'' of
                  Inl e \<Rightarrow> except_clauses E c loading e
                | Inr col \<Rightarrow>
                   (case to_datetime E col of
                      Inl e \<Rightarrow> except_clauses E c (loading @ [Call_to_datetime col]) e
                    | Inr ts \<Rightarrow>
                       (case generate_dashboard_figure E
                               (PFrame (setitem df ''publishedAt'' (Datetime ts))) fc
                               (query E c u) (forecast_periods u) d3 of
                          Inl e \<Rightarrow>
                            except_clauses E c
                              (loading @ [Call_to_datetime col,
                                          Call_generate_dashboard_figure
                                            (PFrame (setitem df ''publishedAt'' (Datetime ts))) fc
                                            (query E c u) (forecast_periods u)]) e
                        | Inr fig \<Rightarrow>
                           (case pyplot E fig of
                              Some e \<Rightarrow>
                                except_clauses E c
                                  (loading @ [Call_to_datetime col,
                                              Call_generate_dashboard_figure
                                                (PFrame (setitem df ''publishedAt'' (Datetime ts))) fc
                                                (query E c u) (forecast_periods u),
                                              St_pyplot fig]) e
                            | None \<Rightarrow>
                                (loading @ [Call_to_datetime col,
                                            Call_generate_dashboard_figure
                                              (PFrame (setitem df ''publishedAt'' (Datetime ts))) fc
                                              (query E c u) (forecast_periods u),
                                            St_pyplot fig,
                                            St_success ''Dashboard generated successfully!''],
                                 Completed))))))
         \<and> filter is_read_csv_call (fst (app E m u d)) = [Call_read_csv (ANALYZED_NEWS_FILE c)]
         \<and> filter is_presenter_call (fst (app E m u d)) =
             (case pd_read_csv E d3 (ANALYZED_NEWS_FILE c) of
                Inl e \<Rightarrow> []
              | Inr df \<Rightarrow>
                 (case getitem df ''publishedAt'' of
                    Inl e \<Rightarrow> []
                  | Inr col \<Rightarrow>
                     (case to_datetime E col of
                        Inl e \<Rightarrow> []
                      | Inr ts \<Rightarrow>
                         [Call_generate_dashboard_figure
                            (PFrame (setitem df ''publishedAt'' (Datetime ts))) fc
                            (query E c u) (forecast_periods u)])))
         \<and> (\<forall>df ts. getitem (setitem df ''publishedAt'' (Datetime ts)) ''publishedAt''
                       = Inr (Datetime ts))"
proof -
  have run: "app E m u d =
           (let loading = upto_stage4 E c u
                            @ [St_spinner ''Step 4/4: Creating dashboard visualization...'',
                               Call_read_csv (ANALYZED_NEWS_FILE c)]
            in case pd_read_csv E d3 (ANALYZED_NEWS_FILE c) of
              Inl e \<Rightarrow> except_clauses E c loading e
            | Inr df \<Rightarrow>
               (case getitem df ''publishedAt'' of
                  Inl e \<Rightarrow> except_clauses E c loading e
                | Inr col \<Rightarrow>
                   (case to_datetime E col of
                      Inl e \<Rightarrow> except_clauses E c (loading @ [Call_to_datetime col]) e
                    | Inr ts \<Rightarrow>
                       (case generate_dashboard_figure E
                               (PFrame (setitem df ''publishedAt'' (Datetime ts))) fc
                               (query E c u) (forecast_periods u) d3 of
                          Inl e \<Rightarrow>
                            except_clauses E c
                              (loading @ [Call_to_datetime col,
                                          Call_generate_dashboard_figure
                                            (PFrame (setitem df ''publishedAt'' (Datetime ts))) fc
                                            (query E c u) (forecast_periods u)]) e
                        | Inr fig \<Rightarrow>
                           (case pyplot E fig of
                              Some e \<Rightarrow>
                                except_clauses E c
                                  (loading @ [Call_to_datetime col,
                                              Call_generate_dashboard_figure
                                                (PFrame (setitem df ''publishedAt'' (Datetime ts))) fc
                                                (query E c u) (forecast_periods u),
                                              St_pyplot fig]) e
                            | None \<Rightarrow>
                                (loading @ [Call_to_datetime col,
                                            Call_generate_dashboard_figure
                                              (PFrame (setitem df ''publishedAt'' (Datetime ts))) fc
                                              (query E c u) (forecast_periods u),
                                            St_pyplot fig,
                                            St_success ''Dashboard generated successfully!''],
                                 Completed))))))"
    by (simp add: reach_stage4 [OF assms] stage4_unfolded Let_def except_clauses_def
        split: sum.splits option.splits)
  have reads: "filter is_read_csv_call (fst (app E m u d)) = [Call_read_csv (ANALYZED_NEWS_FILE c)]"
    by (simp only: reach_stage4 [OF assms] fst_conv filter_append upto_stage4_quiet
        stage4_read_once append_Nil)
  have calls: "filter is_presenter_call (fst (app E m u d)) =
             (case pd_read_csv E d3 (ANALYZED_NEWS_FILE c) of
                Inl e \<Rightarrow> []
              | Inr df \<Rightarrow>
                 (case getitem df ''publishedAt'' of
                    Inl e \<Rightarrow> []
                  | Inr col \<Rightarrow>
                     (case to_datetime E col of
                        Inl e \<Rightarrow> []
                      | Inr ts \<Rightarrow>
                         [Call_generate_dashboard_figure
                            (PFrame (setitem df ''publishedAt'' (Datetime ts))) fc
                            (query E c u) (forecast_periods u)])))"
    by (simp only: reach_stage4 [OF assms] fst_conv filter_append upto_stage4_quiet
        stage4_presenter_calls append_Nil)
  from run reads calls getitem_setitem show ?thesis by blast
qed

lemma sample_read:
  "pd_read_csv sample_env after_analysis (PStr ''analyzed.csv'') = Inr sample_frame"
  by (simp add: pd_read_csv_def enriched_present sample_env_def)

lemma sample_column:
  "getitem sample_frame ''publishedAt'' = Inr (Parsed [''2024-05-01T10:00:00Z''])"
  by (simp add: getitem_def sample_frame_def)

lemma sample_conversion:
  "to_datetime sample_env (Parsed [''2024-05-01T10:00:00Z'']) = Inr [Some 0]"
  by (simp add: sample_env_def)

lemma sample_query: "query sample_env sample_config pressed = PStr ''xyz''"
  by (simp add: query_def text_input_def pressed_def)

lemma sample_presenter:
  "generate_dashboard_figure sample_env df fc q p d = Inr (PObj 2)"
  by (simp add: sample_env_def)

lemma sample_display: "pyplot sample_env fig = None"
  by (simp add: sample_env_def)

theorem presenter_given_reloaded_dataset_witness:
  "import_config sample_module = Inr sample_config \<and> button_pressed pressed
   \<and> run_collection sample_env (query sample_env sample_config pressed)
        (RAW_NEWS_FILE sample_config) (NEWS_API_KEY sample_config) (GNEWS_API_KEY sample_config)
        (TWITTER_BEARER_TOKEN sample_config) Map.empty = (Inr (PBool True), after_collection)
   \<and> py_truth (PBool True) = Inr True
   \<and> run_analysis sample_env (RAW_NEWS_FILE sample_config) (ANALYZED_NEWS_FILE sample_config)
        after_collection = (Inr (PBool True), after_analysis)
   \<and> run_forecasting sample_env (ANALYZED_NEWS_FILE sample_config)
        (POSITIVE_THRESHOLD sample_config) (NEGATIVE_THRESHOLD sample_config)
        (SLACK_WEBHOOK_URL sample_config) (forecast_periods pressed) after_analysis
       = (Inr (PObj 1), after_analysis)
   \<and> app sample_env sample_module pressed Map.empty =
       (upto_stage4 sample_env sample_config pressed
          @ [St_spinner ''Step 4/4: Creating dashboard visualization...'',
             Call_read_csv (PStr ''analyzed.csv''),
             Call_to_datetime (Parsed [''2024-05-01T10:00:00Z'']),
             Call_generate_dashboard_figure
               (PFrame [(''publishedAt'', Datetime [Some 0]), (''title'', Parsed [''Chips'']),
                        (''sentiment'', Parsed [''0.4''])])
               (PObj 1) (PStr ''xyz'') (PInt 30),
             St_pyplot (PObj 2),
             St_success ''Dashboard generated successfully!''],
        Completed)
   \<and> filter is_read_csv_call (fst (app sample_env sample_module pressed Map.empty))
       = [Call_read_csv (PStr ''analyzed.csv'')]
   \<and> filter is_presenter_call (fst (app sample_env sample_module pressed Map.empty)) =
       [Call_generate_dashboard_figure
          (PFrame [(''publishedAt'', Datetime [Some 0]), (''title'', Parsed [''Chips'']),
                   (''sentiment'', Parsed [''0.4''])])
          (PObj 1) (PStr ''xyz'') (PInt 30)]"
proof -
  have h4: "py_truth (PBool True) = Inr True" by simp
  have "app sample_env sample_module pressed Map.empty =
       (upto_stage4 sample_env sample_config pressed
          @ [St_spinner ''Step 4/4: Creating dashboard visualization...'',
             Call_read_csv (PStr ''analyzed.csv''),
             Call_to_datetime (Parsed [''2024-05-01T10:00:00Z'']),
             Call_generate_dashboard_figure
               (PFrame [(''publishedAt'', Datetime [Some 0]), (''title'', Parsed [''Chips'']),
                        (''sentiment'', Parsed [''0.4''])])
               (PObj 1) (PStr ''xyz'') (PInt 30),
             St_pyplot (PObj 2),
             St_success ''Dashboard generated successfully!''],
        Completed)
   \<and> filter is_read_csv_call (fst (app sample_env sample_module pressed Map.empty))
       = [Call_read_csv (PStr ''analyzed.csv'')]
   \<and> filter is_presenter_call (fst (app sample_env sample_module pressed Map.empty)) =
       [Call_generate_dashboard_figure
          (PFrame [(''publishedAt'', Datetime [Some 0]), (''title'', Parsed [''Chips'']),
                   (''sentiment'', Parsed [''0.4''])])
          (PObj 1) (PStr ''xyz'') (PInt 30)]"
    using presenter_given_reloaded_dataset [OF import_sample pressed_ui(1) sample_collection h4
        sample_analysis h4 sample_forecasting]
    unfolding sample_paths Let_def sample_read sample_column sample_conversion sample_presenter
      sample_display converted_frame sample_query pressed_ui(2) sum.case option.case
      append_assoc append.simps
    by blast
  with import_sample pressed_ui(1) sample_collection sample_analysis h4 sample_forecasting
  show ?thesis by blast
qed

subsection \<open>Startup\<close>

lemma import_names_incomplete:
  assumes "List.find (\<lambda>n. ns n = None) config_names = Some name"
  shows "import_names ns path =
           Inl \<lparr>exn_class = ImportError,
                exn_text = ''cannot import name '' @ quoted name @ '' from '' @ quoted ''config''
                           @ '' ('' @ path @ '')''\<rparr>"
  using assms
  by (auto simp: config_names_def import_names_def import_name_def and_then_def
      split: if_splits)

lemma import_error_run:
  assumes "import_config m = Inl e" and "isinstance_ImportError e"
  shows "app E m u d =
           ([St_error (emoji_collision @ '' **Configuration Error:** Could not load settings from `config.py`. Please check the file.''),
             St_error (''Details: '' @ exn_text e),
             St_info ''Ensure your `config.py` and `.env` files are correctly set up.''],
            Stopped)"
  using assms by (simp add: app_def)

text \<open>
  C6, as stated, fails: a setting of the wrong kind does not stop startup. With a
  \<open>config\<close> module that defines all nine names and gives \<open>POSITIVE_THRESHOLD\<close> the
  string \<open>high\<close>, the import succeeds, no error is shown, and the run draws the button
  and ends at the prompt.
\<close>

theorem malformed_setting_reaches_ui:
  "import_config malformed_module = Inr malformed_config
   \<and> POSITIVE_THRESHOLD malformed_config = PStr ''high''
   \<and> filter is_trigger_button (fst (app sample_env malformed_module idle Map.empty))
       = [St_sidebar_button (emoji_rocket @ '' Generate New Report'')]
   \<and> filter is_error (fst (app sample_env malformed_module idle Map.empty)) = []
   \<and> snd (app sample_env malformed_module idle Map.empty) = Completed"
proof -
  have imp: "import_config malformed_module = Inr malformed_config"
    by (simp add: import_config_def malformed_module_def import_names_def import_name_def
        and_then_def sample_settings_def malformed_config_def sample_config_def)
  show ?thesis
    by (simp add: imp app_def dashboard_def idle_def controls_def malformed_config_def
        sample_config_def)
qed

text \<open>
  C6, amended. When the \<open>config\<close> module cannot be found, or is found and leaves one of
  the nine names the script imports undefined, the import raises an \<open>ImportError\<close>: the
  run is the configuration error, the details (the text of the \<open>ImportError\<close>, which
  names the first undefined name in import order) and the hint, ended by \<open>st.stop()\<close>,
  and the button is never drawn.
\<close>

theorem import_error_stops_startup:
  assumes "m = ModuleAbsent \<and> details = ''No module named '' @ quoted ''config''
           \<or> m = ModuleLoaded ns path
             \<and> List.find (\<lambda>n. ns n = None) config_names = Some name
             \<and> details = ''cannot import name '' @ quoted name @ '' from '' @ quoted ''config''
                         @ '' ('' @ path @ '')''"
  shows "app E m u d =
           ([St_error (emoji_collision @ '' **Configuration Error:** Could not load settings from `config.py`. Please check the file.''),
             St_error (''Details: '' @ details),
             St_info ''Ensure your `config.py` and `.env` files are correctly set up.''],
            Stopped)
         \<and> filter is_trigger_button (fst (app E m u d)) = []"
proof -
  have "\<exists>e. import_config m = Inl e \<and> isinstance_ImportError e \<and> exn_text e = details"
    using assms import_names_incomplete [of ns name path]
    by (auto simp: import_config_def)
  then obtain e where e: "import_config m = Inl e" "isinstance_ImportError e"
    and shown: "exn_text e = details"
    by blast
  show ?thesis
    by (simp add: import_error_run [OF e] shown)
qed

theorem import_error_stops_startup_witness:
  "incomplete_module = ModuleLoaded (map_of (butlast sample_settings)) ''/app/config.py''
   \<and> List.find (\<lambda>n. map_of (butlast sample_settings) n = None) config_names
       = Some ''NEGATIVE_THRESHOLD''
   \<and> app sample_env incomplete_module idle Map.empty =
       ([St_error (emoji_collision @ '' **Configuration Error:** Could not load settings from `config.py`. Please check the file.''),
         St_error (''Details: '' @ ''cannot import name '' @ quoted ''NEGATIVE_THRESHOLD''
                   @ '' from '' @ quoted ''config'' @ '' ('' @ ''/app/config.py'' @ '')''),
         St_info ''Ensure your `config.py` and `.env` files are correctly set up.''],
        Stopped)
   \<and> filter is_trigger_button (fst (app sample_env incomplete_module idle Map.empty)) = []
   \<and> app sample_env ModuleAbsent idle Map.empty =
       ([St_error (emoji_collision @ '' **Configuration Error:** Could not load settings from `config.py`. Please check the file.''),
         St_error (''Details: '' @ ''No module named '' @ quoted ''config''),
         St_info ''Ensure your `config.py` and `.env` files are correctly set up.''],
        Stopped)"
proof -
  have loaded: "incomplete_module = ModuleLoaded (map_of (butlast sample_settings)) ''/app/config.py''"
    by (simp add: incomplete_module_def)
  have first: "List.find (\<lambda>n. map_of (butlast sample_settings) n = None) config_names
       = Some ''NEGATIVE_THRESHOLD''"
    by (simp add: config_names_def sample_settings_def)
  have h: "incomplete_module = ModuleAbsent
             \<and> ''cannot import name '' @ quoted ''NEGATIVE_THRESHOLD'' @ '' from ''
                 @ quoted ''config'' @ '' ('' @ ''/app/config.py'' @ '')''
               = ''No module named '' @ quoted ''config''
           \<or> incomplete_module = ModuleLoaded (map_of (butlast sample_settings)) ''/app/config.py''
             \<and> List.find (\<lambda>n. map_of (butlast sample_settings) n = None) config_names
                 = Some ''NEGATIVE_THRESHOLD''
             \<and> ''cannot import name '' @ quoted ''NEGATIVE_THRESHOLD'' @ '' from ''
                 @ quoted ''config'' @ '' ('' @ ''/app/config.py'' @ '')''
               = ''cannot import name '' @ quoted ''NEGATIVE_THRESHOLD'' @ '' from ''
                 @ quoted ''config'' @ '' ('' @ ''/app/config.py'' @ '')''"
    using loaded first by blast
  have absent: "ModuleAbsent = ModuleAbsent
             \<and> ''No module named '' @ quoted ''config'' = ''No module named '' @ quoted ''config''
           \<or> ModuleAbsent = ModuleLoaded Map.empty []
             \<and> List.find (\<lambda>n. Map.empty n = (None :: pyval option)) config_names = Some []
             \<and> ''No module named '' @ quoted ''config''
               = ''cannot import name '' @ quoted [] @ '' from '' @ quoted ''config''
                 @ '' ('' @ [] @ '')''"
    by blast
  from import_error_stops_startup [OF h, of sample_env idle Map.empty]
    import_error_stops_startup [OF absent, of sample_env idle Map.empty]
    loaded first
  show ?thesis by blast
qed

end
